theory Spec2Isabelle
  imports Main "HOL-Library.Word"
begin

unbundle bit_operations_syntax

section \<open>Job preparation of the bulk copy command (cmd/cp-url.go)\<close>

text \<open>
  The development embeds \<^verbatim>\<open>cmd/cp-url.go\<close>: the classifier \<^verbatim>\<open>guessCopyURLType\<close>,
  the expanders for the copy shapes A, B, C and D, and \<^verbatim>\<open>prepareCopyURLs\<close> with its two
  stages (generate, then filter by time bounds).

  Go strings are byte sequences, so a string is a \<open>char list\<close> and every index is a byte
  index. A channel drained by \<^verbatim>\<open>range\<close> is the list of values sent on it before it is
  closed; a nil pointer is \<open>None\<close>. Functions of other files of the package (stat, list,
  alias expansion, URL parsing and joining, the time-bound predicates) are fields of the
  record \<open>env\<close>, so every theorem holds for any implementation of them. The option
  bundle that the source calls \<^verbatim>\<open>o\<close> is \<open>opts\<close> here.
\<close>

subsection \<open>Data\<close>

text \<open>\<^verbatim>\<open>time.Time\<close> as an instant counted from the zero value \<^verbatim>\<open>time.Time{}\<close>.\<close>

type_synonym time = int

definition time_zero :: time where
  "time_zero = 0"

text \<open>
  \<^verbatim>\<open>os.FileMode\<close> is a 32-bit mask; the type bits and the two tests used by the file are
  those of the Go standard library (package \<^verbatim>\<open>io/fs\<close>).
\<close>

type_synonym FileMode = "32 word"

definition ModeDir :: FileMode where "ModeDir = push_bit 31 1"
definition ModeSymlink :: FileMode where "ModeSymlink = push_bit 27 1"
definition ModeDevice :: FileMode where "ModeDevice = push_bit 26 1"
definition ModeNamedPipe :: FileMode where "ModeNamedPipe = push_bit 25 1"
definition ModeSocket :: FileMode where "ModeSocket = push_bit 24 1"
definition ModeCharDevice :: FileMode where "ModeCharDevice = push_bit 21 1"
definition ModeIrregular :: FileMode where "ModeIrregular = push_bit 19 1"

definition ModeType :: FileMode where
  "ModeType = ModeDir OR ModeSymlink OR ModeNamedPipe OR ModeSocket OR ModeDevice
              OR ModeCharDevice OR ModeIrregular"

definition IsDir :: "FileMode \<Rightarrow> bool" where
  "IsDir m = (m AND ModeDir \<noteq> 0)"

definition IsRegular :: "FileMode \<Rightarrow> bool" where
  "IsRegular m = (m AND ModeType = 0)"

text \<open>
  \<^verbatim>\<open>*probe.Error\<close>: a cause and the trace points added by \<^verbatim>\<open>Trace\<close>, each with the
  tags it was given. The three constructors of the package used here
  (\<^verbatim>\<open>errInvalidArgument\<close>, \<^verbatim>\<open>errInvalidSource\<close>, \<^verbatim>\<open>errSourceIsDir\<close>) are causes of their
  own; every error of a collaborator is a \<open>Backend\<close> cause.
\<close>

datatype cause =
    InvalidArgument
  | InvalidSource string
  | SourceIsDir string
  | Backend string

datatype probe_error = ProbeError (Cause: cause) (CallTrace: "string list list")

definition Trace :: "probe_error \<Rightarrow> string list \<Rightarrow> probe_error" where
  "Trace e fields = ProbeError (Cause e) (CallTrace e @ [fields])"

definition errInvalidArgument :: probe_error where
  "errInvalidArgument = ProbeError InvalidArgument []"

definition errInvalidSource :: "string \<Rightarrow> probe_error" where
  "errInvalidSource url = ProbeError (InvalidSource url) []"

definition errSourceIsDir :: "string \<Rightarrow> probe_error" where
  "errSourceIsDir url = ProbeError (SourceIsDir url) []"

text \<open>
  \<^verbatim>\<open>ClientURL\<close>, \<^verbatim>\<open>ClientContent\<close> and \<^verbatim>\<open>URLs\<close> with the fields this file reads or writes.
  The separator is one byte (\<^verbatim>\<open>/\<close> or \<^verbatim>\<open>\\<close>), so \<^verbatim>\<open>string(u.Separator)\<close> is the
  one-byte string \<open>[Separator u]\<close>.
\<close>

record ClientURL =
  Path :: string
  Separator :: char

record ClientContent =
  URL :: ClientURL
  Time :: time
  Size :: int
  Type :: FileMode
  VersionID :: string
  Err :: "probe_error option"

record URLs =
  SourceAlias :: string
  SourceContent :: "ClientContent option"
  TargetAlias :: string
  TargetContent :: "ClientContent option"
  Error :: "probe_error option"

text \<open>\<^verbatim>\<open>ClientContent{URL: u}\<close>: every other field has its zero value.\<close>

definition ClientContentOfURL :: "ClientURL \<Rightarrow> ClientContent" where
  "ClientContentOfURL u =
     \<lparr>URL = u, Time = time_zero, Size = 0, Type = 0, VersionID = [], Err = None\<rparr>"

text \<open>\<^verbatim>\<open>URLs{Error: e}\<close>: both contents are nil, both aliases empty.\<close>

definition URLsOfError :: "probe_error \<Rightarrow> URLs" where
  "URLsOfError e =
     \<lparr>SourceAlias = [], SourceContent = None, TargetAlias = [], TargetContent = None,
      Error = Some e\<rparr>"

datatype DirOpt = DirNone | DirFirst | DirLast

record ListOptions =
  Recursive :: bool
  TimeRef :: time
  ShowDir :: DirOpt
  ListZip :: bool

text \<open>A backend client: its URL and its listing, a finite sequence of content records.\<close>

record Client =
  GetURL :: ClientURL
  List :: "ListOptions \<Rightarrow> ClientContent list"

type_synonym encKeys = "(string \<times> (string \<times> string) list) list"

text \<open>
  The collaborators. \<open>url2Stat\<close> and \<open>firstURL2Stat\<close> return the content or the error
  (the client they also return is dropped by every caller here); \<open>mustExpandAlias\<close>
  returns the alias and the expanded URL. \<open>hostSeparator\<close> is \<^verbatim>\<open>filepath.Separator\<close>, and
  \<^verbatim>\<open>filepath.Join\<close> and \<^verbatim>\<open>filepath.Base\<close> are those of the host.
\<close>

record env =
  hostSeparator :: char
  filepath_Join :: "string list \<Rightarrow> string"
  filepath_Base :: "string \<Rightarrow> string"
  mustExpandAlias :: "string \<Rightarrow> string \<times> string"
  url2Stat :: "string \<Rightarrow> string \<Rightarrow> bool \<Rightarrow> encKeys \<Rightarrow> time \<Rightarrow> bool
               \<Rightarrow> probe_error + ClientContent"
  firstURL2Stat :: "string \<Rightarrow> time \<Rightarrow> bool \<Rightarrow> probe_error + ClientContent"
  isAliasURLDir :: "string \<Rightarrow> encKeys \<Rightarrow> time \<Rightarrow> bool"
  newClient :: "string \<Rightarrow> probe_error + Client"
  newClientURL :: "string \<Rightarrow> ClientURL"
  String :: "ClientURL \<Rightarrow> string"
  urlJoinPath :: "string \<Rightarrow> string \<Rightarrow> string"
  isOlder :: "time \<Rightarrow> string \<Rightarrow> bool"
  isNewer :: "time \<Rightarrow> string \<Rightarrow> bool"

subsection \<open>Strings and paths of the Go standard library\<close>

text \<open>
  \<^verbatim>\<open>strings.LastIndex(s, substr)\<close>: the index of the last instance of \<open>substr\<close> in \<open>s\<close>,
  or \<open>-1\<close>. \<open>lastIndexFrom s substr n\<close> tries the start positions \<open>n - 1\<close> down to \<open>0\<close>.
\<close>

fun lastIndexFrom :: "string \<Rightarrow> string \<Rightarrow> nat \<Rightarrow> int" where
  "lastIndexFrom s substr 0 = - 1"
| "lastIndexFrom s substr (Suc i) =
     (if take (length substr) (drop i s) = substr then int i
      else lastIndexFrom s substr i)"

definition LastIndex :: "string \<Rightarrow> string \<Rightarrow> int" where
  "LastIndex s substr =
     (if length s < length substr then - 1
      else lastIndexFrom s substr (Suc (length s - length substr)))"

definition HasPrefix :: "string \<Rightarrow> string \<Rightarrow> bool" where
  "HasPrefix s pre = (length pre \<le> length s \<and> take (length pre) s = pre)"

definition TrimPrefix :: "string \<Rightarrow> string \<Rightarrow> string" where
  "TrimPrefix s pre = (if HasPrefix s pre then drop (length pre) s else s)"

text \<open>
  \<^verbatim>\<open>filepath.ToSlash\<close>: the identity where the host separator is the slash, else every
  host separator becomes a slash.
\<close>

definition ToSlash :: "env \<Rightarrow> string \<Rightarrow> string" where
  "ToSlash e path =
     (if hostSeparator e = CHR ''/'' then path
      else map (\<lambda>c. if c = hostSeparator e then CHR ''/'' else c) path)"

subsection \<open>Type A and Type C builders\<close>

definition makeCopyContentTypeA ::
  "env \<Rightarrow> string \<Rightarrow> ClientContent \<Rightarrow> string \<Rightarrow> string \<Rightarrow> URLs" where
  "makeCopyContentTypeA e sourceAlias sourceContent targetAlias targetURL =
     (let targetContent = ClientContentOfURL (newClientURL e targetURL)
      in \<lparr>SourceAlias = sourceAlias, SourceContent = Some sourceContent,
          TargetAlias = targetAlias, TargetContent = Some targetContent, Error = None\<rparr>)"

definition makeCopyContentTypeC ::
  "env \<Rightarrow> string \<Rightarrow> ClientURL \<Rightarrow> ClientContent \<Rightarrow> string \<Rightarrow> string \<Rightarrow> URLs" where
  "makeCopyContentTypeC e sourceAlias sourceURL sourceContent targetAlias targetURL =
     (let newSourceURL = URL sourceContent;
          pathSeparatorIndex = LastIndex (Path sourceURL) [Separator sourceURL];
          newSourceSuffix = ToSlash e (Path newSourceURL);
          newSourceSuffix =
            (if pathSeparatorIndex > 1
             then (let sourcePrefix =
                         ToSlash e (take (nat pathSeparatorIndex) (Path sourceURL))
                   in TrimPrefix newSourceSuffix sourcePrefix)
             else newSourceSuffix);
          newTargetURL = urlJoinPath e targetURL newSourceSuffix
      in makeCopyContentTypeA e sourceAlias sourceContent targetAlias newTargetURL)"

subsection \<open>Calls to the backend\<close>

text \<open>
  Every function that reaches the backend returns, before its result, the calls it made
  in order. The wrappers below make the call and record it with the same arguments.
\<close>

datatype call =
    CallUrl2Stat string string bool encKeys time bool
  | CallFirstURL2Stat string time bool
  | CallIsAliasURLDir string encKeys time
  | CallNewClient string
  | CallList ClientURL ListOptions

definition do_url2Stat ::
  "env \<Rightarrow> string \<Rightarrow> string \<Rightarrow> bool \<Rightarrow> encKeys \<Rightarrow> time \<Rightarrow> bool
   \<Rightarrow> call list \<times> (probe_error + ClientContent)" where
  "do_url2Stat e url version fileAttr keys t isZip =
     ([CallUrl2Stat url version fileAttr keys t isZip],
      url2Stat e url version fileAttr keys t isZip)"

definition do_firstURL2Stat ::
  "env \<Rightarrow> string \<Rightarrow> time \<Rightarrow> bool \<Rightarrow> call list \<times> (probe_error + ClientContent)" where
  "do_firstURL2Stat e url t isZip = ([CallFirstURL2Stat url t isZip], firstURL2Stat e url t isZip)"

definition do_isAliasURLDir ::
  "env \<Rightarrow> string \<Rightarrow> encKeys \<Rightarrow> time \<Rightarrow> call list \<times> bool" where
  "do_isAliasURLDir e url keys t = ([CallIsAliasURLDir url keys t], isAliasURLDir e url keys t)"

definition do_newClient :: "env \<Rightarrow> string \<Rightarrow> call list \<times> (probe_error + Client)" where
  "do_newClient e url = ([CallNewClient url], newClient e url)"

definition do_List :: "Client \<Rightarrow> ListOptions \<Rightarrow> call list \<times> ClientContent list" where
  "do_List c opts = ([CallList (GetURL c) opts], List c opts)"

subsection \<open>Type A: copy(f, f)\<close>

definition prepareCopyURLsTypeA ::
  "env \<Rightarrow> string \<Rightarrow> string \<Rightarrow> string \<Rightarrow> encKeys \<Rightarrow> bool \<Rightarrow> call list \<times> URLs" where
  "prepareCopyURLsTypeA e sourceURL sourceVersion targetURL encKeyDB isZip =
     (let sourceAlias = fst (mustExpandAlias e sourceURL);
          (targetAlias, targetURL) = mustExpandAlias e targetURL;
          (calls, st) = do_url2Stat e sourceURL sourceVersion False encKeyDB time_zero isZip
      in (calls,
          case st of
            Inl err \<Rightarrow> URLsOfError (Trace err [sourceURL])
          | Inr sourceContent \<Rightarrow>
              if \<not> IsRegular (Type sourceContent)
              then URLsOfError (Trace (errInvalidSource sourceURL) [sourceURL])
              else makeCopyContentTypeA e sourceAlias sourceContent targetAlias targetURL))"

subsection \<open>Type B: copy(f, d)\<close>

definition makeCopyContentTypeB ::
  "env \<Rightarrow> string \<Rightarrow> ClientContent \<Rightarrow> string \<Rightarrow> string \<Rightarrow> URLs" where
  "makeCopyContentTypeB e sourceAlias sourceContent targetAlias targetURL =
     (let targetURLParse = newClientURL e targetURL;
          targetURLParse = targetURLParse
            \<lparr>Path := ToSlash e (filepath_Join e
               [Path targetURLParse, filepath_Base e (Path (URL sourceContent))])\<rparr>
      in makeCopyContentTypeA e sourceAlias sourceContent targetAlias
           (String e targetURLParse))"

definition prepareCopyURLsTypeB ::
  "env \<Rightarrow> string \<Rightarrow> string \<Rightarrow> string \<Rightarrow> encKeys \<Rightarrow> bool \<Rightarrow> call list \<times> URLs" where
  "prepareCopyURLsTypeB e sourceURL sourceVersion targetURL encKeyDB isZip =
     (let sourceAlias = fst (mustExpandAlias e sourceURL);
          (targetAlias, targetURL) = mustExpandAlias e targetURL;
          (calls, st) = do_url2Stat e sourceURL sourceVersion False encKeyDB time_zero isZip
      in (calls,
          case st of
            Inl err \<Rightarrow> URLsOfError (Trace err [sourceURL])
          | Inr sourceContent \<Rightarrow>
              if \<not> IsRegular (Type sourceContent)
              then (if IsDir (Type sourceContent)
                    then URLsOfError (Trace (errSourceIsDir sourceURL) [sourceURL])
                    else URLsOfError (Trace (errInvalidSource sourceURL) [sourceURL]))
              else makeCopyContentTypeB e sourceAlias sourceContent targetAlias targetURL))"

subsection \<open>Type C: copy(d1..., d2)\<close>

text \<open>The body of the loop over the listing: what is sent for the records, in order.\<close>

fun rangeListTypeC ::
  "env \<Rightarrow> string \<Rightarrow> Client \<Rightarrow> string \<Rightarrow> string \<Rightarrow> ClientContent list \<Rightarrow> URLs list" where
  "rangeListTypeC e sourceAlias sourceClient targetAlias targetURL [] = []"
| "rangeListTypeC e sourceAlias sourceClient targetAlias targetURL (sourceContent # rest) =
     (case Err sourceContent of
        Some err \<Rightarrow>
          URLsOfError (Trace err [String e (GetURL sourceClient)])
            # rangeListTypeC e sourceAlias sourceClient targetAlias targetURL rest
      | None \<Rightarrow>
          if \<not> IsRegular (Type sourceContent)
          then rangeListTypeC e sourceAlias sourceClient targetAlias targetURL rest
          else makeCopyContentTypeC e sourceAlias (GetURL sourceClient) sourceContent
                 targetAlias targetURL
                 # rangeListTypeC e sourceAlias sourceClient targetAlias targetURL rest)"

definition prepareCopyURLsTypeC ::
  "env \<Rightarrow> string \<Rightarrow> string \<Rightarrow> bool \<Rightarrow> bool \<Rightarrow> time \<Rightarrow> call list \<times> URLs list" where
  "prepareCopyURLsTypeC e sourceURL targetURL isRecursive isZip timeRef =
     (let sourceAlias = fst (mustExpandAlias e sourceURL);
          (targetAlias, targetURL) = mustExpandAlias e targetURL;
          (calls, cl) = do_newClient e sourceURL
      in case cl of
           Inl err \<Rightarrow> (calls, [URLsOfError (Trace err [sourceURL])])
         | Inr sourceClient \<Rightarrow>
             (let (calls', listing) =
                    do_List sourceClient
                      \<lparr>Recursive = isRecursive, TimeRef = timeRef, ShowDir = DirNone,
                       ListZip = isZip\<rparr>
              in (calls @ calls',
                  rangeListTypeC e sourceAlias sourceClient targetAlias targetURL listing)))"

subsection \<open>Type D: copy([]f, d)\<close>

fun prepareCopyURLsTypeD ::
  "env \<Rightarrow> string list \<Rightarrow> string \<Rightarrow> bool \<Rightarrow> time \<Rightarrow> call list \<times> URLs list" where
  "prepareCopyURLsTypeD e [] targetURL isRecursive timeRef = ([], [])"
| "prepareCopyURLsTypeD e (sourceURL # rest) targetURL isRecursive timeRef =
     (let (calls, sent) = prepareCopyURLsTypeC e sourceURL targetURL isRecursive False timeRef;
          (calls', sent') = prepareCopyURLsTypeD e rest targetURL isRecursive timeRef
      in (calls @ calls', sent @ sent'))"

subsection \<open>The classifier\<close>

datatype copyURLsType =
    copyURLsTypeInvalid
  | copyURLsTypeA
  | copyURLsTypeB
  | copyURLsTypeC
  | copyURLsTypeD

record prepareCopyURLsOpts =
  sourceURLs :: "string list"
  targetURL :: string
  isRecursive :: bool
  encKeyDB :: encKeys
  olderThan :: string
  newerThan :: string
  timeRef :: time
  versionID :: string
  isZip :: bool

definition guessCopyURLType ::
  "env \<Rightarrow> prepareCopyURLsOpts
   \<Rightarrow> call list \<times> copyURLsType \<times> string \<times> probe_error option" where
  "guessCopyURLType e opts =
     (case sourceURLs opts of
        [sourceURL] \<Rightarrow>
          (let (calls, st) =
                 (if \<not> isRecursive opts
                  then do_url2Stat e sourceURL (versionID opts) False (encKeyDB opts) (timeRef opts)
                         (isZip opts)
                  else do_firstURL2Stat e sourceURL (timeRef opts) (isZip opts))
           in case st of
                Inl err \<Rightarrow> (calls, copyURLsTypeInvalid, [], Some err)
              | Inr sourceContent \<Rightarrow>
                  if IsDir (Type sourceContent) \<or> isRecursive opts
                  then (calls, copyURLsTypeC, [], None)
                  else (let (calls', isDir) =
                              do_isAliasURLDir e (targetURL opts) (encKeyDB opts) (timeRef opts)
                        in if isDir
                           then (calls @ calls', copyURLsTypeB, VersionID sourceContent, None)
                           else (calls @ calls', copyURLsTypeA, VersionID sourceContent, None)))
      | _ \<Rightarrow>
          (let (calls, isDir) = do_isAliasURLDir e (targetURL opts) (encKeyDB opts) (timeRef opts)
           in if isDir
              then (calls, copyURLsTypeD, [], None)
              else (calls, copyURLsTypeInvalid, [], Some (Trace errInvalidArgument []))))"

subsection \<open>The two stages of prepareCopyURLs\<close>

text \<open>
  What the caller of \<^verbatim>\<open>prepareCopyURLs\<close> observes: the invocation was stopped by
  \<^verbatim>\<open>fatalIf\<close> before anything was sent, or a goroutine panicked after the listed values
  were delivered, or the channel was closed after the listed values.
\<close>

datatype run =
    Fatal probe_error string
  | Panicked "URLs list"
  | Closed "URLs list"

text \<open>
  Modelled from the spec: \<^verbatim>\<open>fatalIf\<close> (cmd/error.go is not among the sources). A
  classification failure is fatal and aborts the invocation before any Job is produced;
  with a nil error the call returns and the invocation goes on. \<open>Some\<close> is the abort,
  with the error and the message.
\<close>

definition fatalIf :: "probe_error option \<Rightarrow> string \<Rightarrow> (probe_error \<times> string) option" where
  "fatalIf err msg = (case err of None \<Rightarrow> None | Some x \<Rightarrow> Some (x, msg))"

text \<open>
  The first goroutine: classify, then send what the expander of the shape produces.
  \<^verbatim>\<open>o.sourceURLs[0]\<close> panics on an empty slice; \<^verbatim>\<open>err.Trace()\<close> of a nil error is nil.
\<close>

definition prepareCopyURLs_generate :: "env \<Rightarrow> prepareCopyURLsOpts \<Rightarrow> call list \<times> run" where
  "prepareCopyURLs_generate e opts =
     (let (calls, cpType, cpVersion, err) = guessCopyURLType e opts
      in case fatalIf (map_option (\<lambda>x. Trace x []) err)
                ''Unable to guess the type of copy operation.'' of
           Some (x, msg) \<Rightarrow> (calls, Fatal x msg)
         | None \<Rightarrow>
             (case cpType of
                copyURLsTypeA \<Rightarrow>
                  (case sourceURLs opts of
                     [] \<Rightarrow> (calls, Panicked [])
                   | sourceURL # _ \<Rightarrow>
                       (let (calls', sent) =
                              prepareCopyURLsTypeA e sourceURL cpVersion (targetURL opts)
                                (encKeyDB opts) (isZip opts)
                        in (calls @ calls', Closed [sent])))
              | copyURLsTypeB \<Rightarrow>
                  (case sourceURLs opts of
                     [] \<Rightarrow> (calls, Panicked [])
                   | sourceURL # _ \<Rightarrow>
                       (let (calls', sent) =
                              prepareCopyURLsTypeB e sourceURL cpVersion (targetURL opts)
                                (encKeyDB opts) (isZip opts)
                        in (calls @ calls', Closed [sent])))
              | copyURLsTypeC \<Rightarrow>
                  (case sourceURLs opts of
                     [] \<Rightarrow> (calls, Panicked [])
                   | sourceURL # _ \<Rightarrow>
                       (let (calls', sent) =
                              prepareCopyURLsTypeC e sourceURL (targetURL opts) (isRecursive opts)
                                (isZip opts) (timeRef opts)
                        in (calls @ calls', Closed sent)))
              | copyURLsTypeD \<Rightarrow>
                  (let (calls', sent) =
                         prepareCopyURLsTypeD e (sourceURLs opts) (targetURL opts) (isRecursive opts)
                           (timeRef opts)
                   in (calls @ calls', Closed sent))
              | copyURLsTypeInvalid \<Rightarrow>
                  (calls, Closed [URLsOfError (Trace errInvalidArgument (sourceURLs opts))])))"

text \<open>
  The second goroutine. \<^verbatim>\<open>cpURLs.SourceContent.Time\<close> dereferences the pointer
  \<^verbatim>\<open>SourceContent\<close>, which is evaluated only when the bound is not empty; \<open>None\<close> below is
  the nil pointer dereference.
\<close>

definition skipOlder :: "env \<Rightarrow> prepareCopyURLsOpts \<Rightarrow> URLs \<Rightarrow> bool option" where
  "skipOlder e opts cpURLs =
     (if olderThan opts \<noteq> []
      then (case SourceContent cpURLs of
              None \<Rightarrow> None
            | Some sc \<Rightarrow> Some (isOlder e (Time sc) (olderThan opts)))
      else Some False)"

definition skipNewer :: "env \<Rightarrow> prepareCopyURLsOpts \<Rightarrow> URLs \<Rightarrow> bool option" where
  "skipNewer e opts cpURLs =
     (if newerThan opts \<noteq> []
      then (case SourceContent cpURLs of
              None \<Rightarrow> None
            | Some sc \<Rightarrow> Some (isNewer e (Time sc) (newerThan opts)))
      else Some False)"

definition send :: "URLs \<Rightarrow> run \<Rightarrow> run" where
  "send u r =
     (case r of
        Closed us \<Rightarrow> Closed (u # us)
      | Panicked us \<Rightarrow> Panicked (u # us)
      | Fatal x msg \<Rightarrow> Fatal x msg)"

fun prepareCopyURLs_filter :: "env \<Rightarrow> prepareCopyURLsOpts \<Rightarrow> URLs list \<Rightarrow> run" where
  "prepareCopyURLs_filter e opts [] = Closed []"
| "prepareCopyURLs_filter e opts (cpURLs # rest) =
     (case skipOlder e opts cpURLs of
        None \<Rightarrow> Panicked []
      | Some True \<Rightarrow> prepareCopyURLs_filter e opts rest
      | Some False \<Rightarrow>
          (case skipNewer e opts cpURLs of
             None \<Rightarrow> Panicked []
           | Some True \<Rightarrow> prepareCopyURLs_filter e opts rest
           | Some False \<Rightarrow> send cpURLs (prepareCopyURLs_filter e opts rest)))"

definition prepareCopyURLs :: "env \<Rightarrow> prepareCopyURLsOpts \<Rightarrow> call list \<times> run" where
  "prepareCopyURLs e opts =
     (let (calls, g) = prepareCopyURLs_generate e opts
      in (calls,
          case g of
            Closed sent \<Rightarrow> prepareCopyURLs_filter e opts sent
          | Panicked sent \<Rightarrow> Panicked sent
          | Fatal x msg \<Rightarrow> Fatal x msg))"

subsection \<open>A Unix host without aliases\<close>

text \<open>
  \<^verbatim>\<open>filepath.Clean\<close>, \<^verbatim>\<open>filepath.Join\<close> and \<^verbatim>\<open>filepath.Base\<close> of the Go standard library
  where the separator is the slash and there are no volume names. \<open>Clean\<close> works on the
  elements between slashes: empty and \<^verbatim>\<open>.\<close> elements are dropped, \<^verbatim>\<open>..\<close> removes the
  element before it, is kept at the start of a relative path and is dropped at the root.
\<close>

fun splitSlash :: "string \<Rightarrow> string list" where
  "splitSlash [] = [[]]"
| "splitSlash (c # cs) =
     (if c = CHR ''/'' then [] # splitSlash cs
      else (let r = splitSlash cs in (c # hd r) # tl r))"

fun joinSlash :: "string list \<Rightarrow> string" where
  "joinSlash [] = []"
| "joinSlash [x] = x"
| "joinSlash (x # y # ys) = x @ CHR ''/'' # joinSlash (y # ys)"

definition cleanStep :: "bool \<Rightarrow> string list \<Rightarrow> string \<Rightarrow> string list" where
  "cleanStep rooted out el =
     (if el = [] \<or> el = ''.'' then out
      else if el = ''..''
      then (if out \<noteq> [] \<and> hd out \<noteq> ''..'' then tl out
            else if \<not> rooted then ''..'' # out
            else out)
      else el # out)"

definition unix_Clean :: "string \<Rightarrow> string" where
  "unix_Clean path =
     (if path = [] then ''.''
      else (let rooted = (hd path = CHR ''/'');
                out = joinSlash (rev (foldl (cleanStep rooted) [] (splitSlash path)))
            in if rooted then CHR ''/'' # out
               else if out = [] then ''.'' else out))"

definition unix_Join :: "string list \<Rightarrow> string" where
  "unix_Join elem =
     (case dropWhile (\<lambda>x. x = []) elem of
        [] \<Rightarrow> []
      | x # xs \<Rightarrow> unix_Clean (joinSlash (x # xs)))"

definition unix_Base :: "string \<Rightarrow> string" where
  "unix_Base path =
     (if path = [] then ''.''
      else (let p = rev (dropWhile (\<lambda>c. c = CHR ''/'') (rev path));
                b = rev (takeWhile (\<lambda>c. c \<noteq> CHR ''/'') (rev p))
            in if b = [] then ''/'' else b))"

text \<open>
  Modelled from the spec: \<^verbatim>\<open>urlJoinPath\<close> (cmd/client-url.go is not among the sources).
  The join is always forward-slash-normalized, independent of host path conventions:
  both parts are normalized and exactly one slash separates them.
\<close>

definition joinPath :: "char \<Rightarrow> string \<Rightarrow> string \<Rightarrow> string" where
  "joinPath sep base suffix =
     (let slash = (\<lambda>p. if sep = CHR ''/'' then p
                        else map (\<lambda>c. if c = sep then CHR ''/'' else c) p);
          b = slash base;
          s = TrimPrefix (slash suffix) ''/''
      in if b \<noteq> [] \<and> last b = CHR ''/'' then b @ s else b @ CHR ''/'' # s)"

text \<open>
  An environment for running the functions on examples: a Unix host, URLs without alias
  that are plain paths, and a backend given by its stat function, its directory test and
  its listing per source URL.
\<close>

definition notFound :: probe_error where
  "notFound = ProbeError (Backend ''Object does not exist'') []"

definition unixEnv ::
  "(string \<Rightarrow> time \<Rightarrow> probe_error + ClientContent) \<Rightarrow> (string \<Rightarrow> bool)
   \<Rightarrow> (string \<Rightarrow> ListOptions \<Rightarrow> ClientContent list) \<Rightarrow> env" where
  "unixEnv stat isDir listing =
     \<lparr>hostSeparator = CHR ''/'',
      filepath_Join = unix_Join,
      filepath_Base = unix_Base,
      mustExpandAlias = (\<lambda>url. ([], url)),
      url2Stat = (\<lambda>url version fileAttr keys t z. stat url t),
      firstURL2Stat = (\<lambda>url t z. stat url t),
      isAliasURLDir = (\<lambda>url keys t. isDir url),
      newClient = (\<lambda>url. Inr \<lparr>GetURL = \<lparr>Path = url, Separator = CHR ''/''\<rparr>,
                               List = listing url\<rparr>),
      newClientURL = (\<lambda>url. \<lparr>Path = url, Separator = CHR ''/''\<rparr>),
      String = Path,
      urlJoinPath = joinPath (CHR ''/''),
      isOlder = (\<lambda>t bound. False),
      isNewer = (\<lambda>t bound. False)\<rparr>"

definition fileAt :: "string \<Rightarrow> ClientContent" where
  "fileAt p =
     \<lparr>URL = \<lparr>Path = p, Separator = CHR ''/''\<rparr>, Time = 100, Size = 1, Type = 0,
      VersionID = ''v1'', Err = None\<rparr>"

definition dirAt :: "string \<Rightarrow> ClientContent" where
  "dirAt p =
     \<lparr>URL = \<lparr>Path = p, Separator = CHR ''/''\<rparr>, Time = 100, Size = 0, Type = ModeDir,
      VersionID = [], Err = None\<rparr>"

definition linkAt :: "string \<Rightarrow> ClientContent" where
  "linkAt p =
     \<lparr>URL = \<lparr>Path = p, Separator = CHR ''/''\<rparr>, Time = 100, Size = 0, Type = ModeSymlink,
      VersionID = [], Err = None\<rparr>"

text \<open>A backend with no object at all.\<close>

definition noBackend :: env where
  "noBackend = unixEnv (\<lambda>url t. Inl notFound) (\<lambda>url. False) (\<lambda>url lo. [])"

text \<open>
  A small backend: the directory \<^verbatim>\<open>data\<close> with the files \<^verbatim>\<open>data/a.txt\<close> and
  \<^verbatim>\<open>data/sub/b.txt\<close> and the symbolic link \<^verbatim>\<open>data/link\<close>, and the empty directory
  \<^verbatim>\<open>backup\<close>. A listing that is not recursive stops at the first level.
\<close>

definition sampleStat :: "string \<Rightarrow> time \<Rightarrow> probe_error + ClientContent" where
  "sampleStat url t =
     (if url = ''data/a.txt'' then Inr (fileAt ''data/a.txt'')
      else if url = ''data/sub/b.txt'' then Inr (fileAt ''data/sub/b.txt'')
      else if url = ''data/link'' then Inr (linkAt ''data/link'')
      else if url = ''data'' then Inr (dirAt ''data'')
      else if url = ''backup'' then Inr (dirAt ''backup'')
      else Inl notFound)"

definition sampleIsDir :: "string \<Rightarrow> bool" where
  "sampleIsDir url = (url = ''data'' \<or> url = ''backup'')"

definition sampleListing :: "string \<Rightarrow> ListOptions \<Rightarrow> ClientContent list" where
  "sampleListing url lo =
     (if url = ''data''
      then (if Recursive lo
            then [fileAt ''data/a.txt'', linkAt ''data/link'', fileAt ''data/sub/b.txt'']
            else [fileAt ''data/a.txt'', linkAt ''data/link''])
      else if url = ''data/a.txt'' then [fileAt ''data/a.txt'']
      else if url = ''data/sub/b.txt'' then [fileAt ''data/sub/b.txt'']
      else [])"

definition sampleBackend :: env where
  "sampleBackend = unixEnv sampleStat sampleIsDir sampleListing"

text \<open>An invocation with no time bound, no version, no reference time, archive mode off.\<close>

definition copyOpts :: "string list \<Rightarrow> string \<Rightarrow> bool \<Rightarrow> prepareCopyURLsOpts" where
  "copyOpts sources target recursive =
     \<lparr>sourceURLs = sources, targetURL = target, isRecursive = recursive, encKeyDB = [],
      olderThan = [], newerThan = [], timeRef = time_zero, versionID = [], isZip = False\<rparr>"


text \<open>The same invocation of one file with a reference time set.\<close>

definition rewindOpts :: prepareCopyURLsOpts where
  "rewindOpts = (copyOpts [''data/a.txt''] ''copy.txt'' False)\<lparr>timeRef := 7\<rparr>"

text \<open>
  What Type C sends for one record that carries an error or is a regular file: the error
  job traced with the URL of the source client, or the Type C job of the record.
\<close>

definition typeCJob ::
  "env \<Rightarrow> string \<Rightarrow> Client \<Rightarrow> string \<Rightarrow> string \<Rightarrow> ClientContent \<Rightarrow> URLs" where
  "typeCJob e sourceAlias sourceClient targetAlias target r =
     (case Err r of
        Some err \<Rightarrow> URLsOfError (Trace err [String e (GetURL sourceClient)])
      | None \<Rightarrow>
          makeCopyContentTypeC e sourceAlias (GetURL sourceClient) r targetAlias target)"

definition failing :: "ClientContent \<Rightarrow> bool" where
  "failing r = (Err r \<noteq> None)"

definition succeeding :: "ClientContent \<Rightarrow> bool" where
  "succeeding r = (Err r = None \<and> IsRegular (Type r))"

text \<open>
  The sample backend with two failures: no client can be made for \<^verbatim>\<open>nowhere\<close>, and the
  recursive listing of \<^verbatim>\<open>data\<close> has a record with an error between its two files, after
  the directory \<^verbatim>\<open>data/sub\<close>.
\<close>

definition deniedAt :: "string \<Rightarrow> ClientContent" where
  "deniedAt p =
     \<lparr>URL = \<lparr>Path = p, Separator = CHR ''/''\<rparr>, Time = 0, Size = 0, Type = 0,
      VersionID = [], Err = Some (ProbeError (Backend ''Access Denied'') [])\<rparr>"

definition brokenListing :: "string \<Rightarrow> ListOptions \<Rightarrow> ClientContent list" where
  "brokenListing url lo =
     (if url = ''data''
      then [fileAt ''data/a.txt'', dirAt ''data/sub'', deniedAt ''data/secret'',
            linkAt ''data/link'', fileAt ''data/sub/b.txt'']
      else [])"

definition brokenBackend :: env where
  "brokenBackend =
     (unixEnv sampleStat sampleIsDir brokenListing)
       \<lparr>newClient :=
          (\<lambda>url. if url = ''nowhere'' then Inl notFound
                  else Inr \<lparr>GetURL = \<lparr>Path = url, Separator = CHR ''/''\<rparr>,
                            List = brokenListing url\<rparr>)\<rparr>"

text \<open>The options of the listings among the calls, in order.\<close>

fun listOptionsOf :: "call list \<Rightarrow> ListOptions list" where
  "listOptionsOf [] = []"
| "listOptionsOf (CallList u lo # cs) = lo # listOptionsOf cs"
| "listOptionsOf (c # cs) = listOptionsOf cs"

text \<open>
  A backend with the archive \<^verbatim>\<open>data/a.zip\<close>: listed in archive mode it shows its entry,
  otherwise itself. The invocation copies it and a file into \<^verbatim>\<open>backup\<close> in archive mode.
\<close>

definition zipListing :: "string \<Rightarrow> ListOptions \<Rightarrow> ClientContent list" where
  "zipListing url lo =
     (if url = ''data/a.zip''
      then (if ListZip lo then [fileAt ''data/a.zip/inner.txt''] else [fileAt ''data/a.zip''])
      else sampleListing url lo)"

definition zipBackend :: env where
  "zipBackend = unixEnv sampleStat sampleIsDir zipListing"

definition zipOpts :: prepareCopyURLsOpts where
  "zipOpts = (copyOpts [''data/a.zip'', ''data/a.txt''] ''backup'' False)\<lparr>isZip := True\<rparr>"

text \<open>A recursive copy of \<^verbatim>\<open>data\<close> with an older-than bound.\<close>

definition olderOpts :: prepareCopyURLsOpts where
  "olderOpts = (copyOpts [''data''] ''backup'' True)\<lparr>olderThan := ''7d''\<rparr>"

text \<open>
  A backend where \<^verbatim>\<open>data/old.txt\<close> exists at any reference time but no longer now, and a
  copy of it at the reference time 7 with a newer-than bound.
\<close>

definition rewindStat :: "string \<Rightarrow> time \<Rightarrow> probe_error + ClientContent" where
  "rewindStat url t =
     (if url = ''data/old.txt'' \<and> t \<noteq> time_zero then Inr (fileAt ''data/old.txt'')
      else sampleStat url t)"

definition rewindBackend :: env where
  "rewindBackend = unixEnv rewindStat sampleIsDir sampleListing"

definition newerOpts :: prepareCopyURLsOpts where
  "newerOpts =
     (copyOpts [''data/old.txt''] ''copy.txt'' False)\<lparr>timeRef := 7, newerThan := ''1d''\<rparr>"

section \<open>Properties\<close>

subsection \<open>File modes and the last separator\<close>

lemma IsDir_not_IsRegular: "IsDir m \<Longrightarrow> \<not> IsRegular m"
  unfolding IsDir_def IsRegular_def ModeType_def
  by (simp add: bit.conj_disj_distrib or_eq_0_iff)

lemma take1_drop_eq: "take (Suc 0) (drop i s) = [c] \<longleftrightarrow> i < length s \<and> s ! i = c"
  by (cases "i < length s") (simp_all add: take_Suc_conv_app_nth hd_drop_conv_nth take_Suc)

lemma lastIndexFrom_byte_lower: "- 1 \<le> lastIndexFrom s [c] n"
  by (induction n) auto

lemma lastIndexFrom_byte_none:
  "n \<le> length s \<Longrightarrow> lastIndexFrom s [c] n = - 1 \<longleftrightarrow> (\<forall>i<n. s ! i \<noteq> c)"
  by (induction n) (auto simp: take1_drop_eq less_Suc_eq)

lemma lastIndexFrom_byte_some:
  "n \<le> length s \<Longrightarrow> 0 \<le> lastIndexFrom s [c] n \<Longrightarrow>
   nat (lastIndexFrom s [c] n) < n \<and> s ! nat (lastIndexFrom s [c] n) = c \<and>
   (\<forall>j. nat (lastIndexFrom s [c] n) < j \<and> j < n \<longrightarrow> s ! j \<noteq> c)"
  by (induction n) (auto simp: take1_drop_eq less_Suc_eq)

lemma LastIndex_byte: "LastIndex s [c] = lastIndexFrom s [c] (length s)"
  by (cases s) (simp_all add: LastIndex_def)

text \<open>
  For a one-byte separator \<open>LastIndex\<close> is \<open>-1\<close> when the byte does not occur, and else
  the position of its last occurrence.
\<close>

lemma LastIndex_byte_last:
  "(LastIndex s [c] = - 1 \<and> c \<notin> set s) \<or>
   (0 \<le> LastIndex s [c] \<and> nat (LastIndex s [c]) < length s \<and> s ! nat (LastIndex s [c]) = c
      \<and> c \<notin> set (drop (Suc (nat (LastIndex s [c]))) s))"
proof (cases "LastIndex s [c] = - 1")
  case True
  then have "\<forall>i<length s. s ! i \<noteq> c"
    using lastIndexFrom_byte_none [of "length s" s c] by (simp add: LastIndex_byte)
  then have "c \<notin> set s" by (auto simp: in_set_conv_nth)
  with True show ?thesis by simp
next
  case False
  then have nn: "0 \<le> LastIndex s [c]"
    using lastIndexFrom_byte_lower [of s c "length s"] by (simp add: LastIndex_byte)
  then have k: "nat (LastIndex s [c]) < length s" "s ! nat (LastIndex s [c]) = c"
    "\<forall>j. nat (LastIndex s [c]) < j \<and> j < length s \<longrightarrow> s ! j \<noteq> c"
    using lastIndexFrom_byte_some [of "length s" s c] by (simp_all add: LastIndex_byte)
  have "c \<notin> set (drop (Suc (nat (LastIndex s [c]))) s)"
  proof
    assume "c \<in> set (drop (Suc (nat (LastIndex s [c]))) s)"
    then obtain j where "j < length s - Suc (nat (LastIndex s [c]))"
      "drop (Suc (nat (LastIndex s [c]))) s ! j = c"
      by (auto simp: in_set_conv_nth)
    then show False
      using k(3) by (auto simp: nth_drop dest!: spec [where x = "Suc (nat (LastIndex s [c])) + j"])
  qed
  with nn k show ?thesis by simp
qed

lemma HasPrefix_split: "HasPrefix r pre \<Longrightarrow> r = pre @ drop (length pre) r"
  by (metis HasPrefix_def append_take_drop_id)

lemma ToSlash_unix: "hostSeparator e = CHR ''/'' \<Longrightarrow> ToSlash e q = q"
  by (simp add: ToSlash_def)

subsection \<open>The loop of Type C\<close>

lemma Error_URLsOfError [simp]: "Error (URLsOfError x) = Some x"
  by (simp add: URLsOfError_def)

lemma Error_makeCopyContentTypeA [simp]: "Error (makeCopyContentTypeA e sa sc ta tu) = None"
  by (simp add: makeCopyContentTypeA_def)

lemma Error_makeCopyContentTypeC [simp]:
  "Error (makeCopyContentTypeC e sa su sc ta tu) = None"
  by (simp add: makeCopyContentTypeC_def Let_def)

lemma Error_typeCJob: "Error (typeCJob e sa cl ta tu r) = None \<longleftrightarrow> Err r = None"
  by (simp add: typeCJob_def split: option.splits)

lemma rangeListTypeC_map:
  "rangeListTypeC e sa cl ta tu xs
     = map (typeCJob e sa cl ta tu) (filter (\<lambda>r. failing r \<or> succeeding r) xs)"
  by (induction xs) (auto simp: typeCJob_def failing_def succeeding_def split: option.splits)

lemma rangeListTypeC_errors:
  "filter (\<lambda>u. Error u \<noteq> None) (rangeListTypeC e sa cl ta tu xs)
     = map (typeCJob e sa cl ta tu) (filter failing xs)"
  by (induction xs) (auto simp: typeCJob_def failing_def split: option.splits)

lemma rangeListTypeC_successes:
  "filter (\<lambda>u. Error u = None) (rangeListTypeC e sa cl ta tu xs)
     = map (typeCJob e sa cl ta tu) (filter succeeding xs)"
  by (induction xs) (auto simp: typeCJob_def succeeding_def split: option.splits)

lemma prepareCopyURLsTypeC_client:
  "newClient e src = Inr cl \<Longrightarrow>
   prepareCopyURLsTypeC e src tgt rc z t
     = ([CallNewClient src,
         CallList (GetURL cl) \<lparr>Recursive = rc, TimeRef = t, ShowDir = DirNone, ListZip = z\<rparr>],
        rangeListTypeC e (fst (mustExpandAlias e src)) cl (fst (mustExpandAlias e tgt))
          (snd (mustExpandAlias e tgt))
          (List cl \<lparr>Recursive = rc, TimeRef = t, ShowDir = DirNone, ListZip = z\<rparr>))"
  by (simp add: prepareCopyURLsTypeC_def do_newClient_def do_List_def Let_def
      split: prod.splits)

lemma prepareCopyURLsTypeC_no_client:
  "newClient e src = Inl err \<Longrightarrow>
   prepareCopyURLsTypeC e src tgt rc z t
     = ([CallNewClient src], [URLsOfError (Trace err [src])])"
  by (simp add: prepareCopyURLsTypeC_def do_newClient_def Let_def split: prod.splits)

lemma typeCJob_succeeding:
  "succeeding r \<Longrightarrow>
   typeCJob e sa cl ta tu r = makeCopyContentTypeC e sa (GetURL cl) r ta tu"
  by (simp add: typeCJob_def succeeding_def)

lemma slash_idem:
  "(\<lambda>c. if c = sep then CHR ''/'' else c) \<circ> (\<lambda>c. if c = sep then CHR ''/'' else c)
     = (\<lambda>c. if c = sep then CHR ''/'' else c)"
  by (auto simp: fun_eq_iff)

lemma joinPath_ToSlash:
  "joinPath (hostSeparator e) base (ToSlash e p) = joinPath (hostSeparator e) base p"
  by (simp add: joinPath_def ToSlash_def slash_idem)

subsection \<open>The target path of a Type C job\<close>

text \<open>
  Claim C1. The jobs without error that Type C sends are, in listing order, the jobs of
  \<^verbatim>\<open>makeCopyContentTypeC\<close> for the regular-file records, with the URL of the source
  client as source URL. There the index \<open>i\<close> is that of the last separator of the source
  URL's path (\<open>-1\<close> without one). The suffix is the record's forward-slash-normalized
  path, without the normalized source path before that separator when \<open>i > 1\<close> and the
  record's path starts with it, and whole otherwise. On a host whose separator is the
  slash the normalization changes nothing, so the whole path is the record's path
  verbatim; on any host, joining the whole normalized path with the forward-slash join
  gives what joining the record's path verbatim gives. The job is the Type A job for the
  target \<^verbatim>\<open>urlJoinPath(targetURL, suffix)\<close>. For the source path \<^verbatim>\<open>bucket/dir1\<close>, the
  record \<^verbatim>\<open>bucket/dir1/sub/file.txt\<close> and the target \<^verbatim>\<open>bucket2/out\<close> the target path is
  \<^verbatim>\<open>bucket2/out/dir1/sub/file.txt\<close>.
\<close>

theorem C1_typeC_target_path:
  "(\<forall>cl. newClient e src = Inr cl \<longrightarrow>
      filter (\<lambda>u. Error u = None) (snd (prepareCopyURLsTypeC e src tgt rc z t))
        = map (\<lambda>r. makeCopyContentTypeC e (fst (mustExpandAlias e src)) (GetURL cl) r
                      (fst (mustExpandAlias e tgt)) (snd (mustExpandAlias e tgt)))
            (filter succeeding
               (List cl \<lparr>Recursive = rc, TimeRef = t, ShowDir = DirNone, ListZip = z\<rparr>)))
   \<and> (let p = Path sourceURL; c = Separator sourceURL; i = LastIndex p [c];
        r = ToSlash e (Path (URL sourceContent));
        pre = ToSlash e (take (nat i) p);
        suffix = (if 1 < i \<and> HasPrefix r pre then drop (length pre) r else r)
    in (i = - 1 \<and> c \<notin> set p \<or>
        0 \<le> i \<and> nat i < length p \<and> p ! nat i = c \<and> c \<notin> set (drop (Suc (nat i)) p))
       \<and> (1 < i \<and> HasPrefix r pre \<longrightarrow> r = pre @ suffix)
       \<and> (hostSeparator e = CHR ''/'' \<longrightarrow> r = Path (URL sourceContent) \<and> pre = take (nat i) p)
       \<and> (urlJoinPath e = joinPath (hostSeparator e) \<and> \<not> (1 < i \<and> HasPrefix r pre)
            \<longrightarrow> urlJoinPath e target suffix = urlJoinPath e target (Path (URL sourceContent)))
       \<and> makeCopyContentTypeC e sourceAlias sourceURL sourceContent targetAlias target
           = makeCopyContentTypeA e sourceAlias sourceContent targetAlias
               (urlJoinPath e target suffix)
       \<and> TargetContent
             (makeCopyContentTypeC e sourceAlias sourceURL sourceContent targetAlias target)
           = Some (ClientContentOfURL (newClientURL e (urlJoinPath e target suffix))))
   \<and> TargetContent
       (makeCopyContentTypeC (unixEnv st isd ls) sourceAlias
          \<lparr>Path = ''bucket/dir1'', Separator = CHR ''/''\<rparr>
          (fileAt ''bucket/dir1/sub/file.txt'') targetAlias ''bucket2/out'')
     = Some (ClientContentOfURL
               \<lparr>Path = ''bucket2/out/dir1/sub/file.txt'', Separator = CHR ''/''\<rparr>)"
proof (intro conjI allI impI)
  fix cl assume cl: "newClient e src = Inr cl"
  show "filter (\<lambda>u. Error u = None) (snd (prepareCopyURLsTypeC e src tgt rc z t))
        = map (\<lambda>r. makeCopyContentTypeC e (fst (mustExpandAlias e src)) (GetURL cl) r
                      (fst (mustExpandAlias e tgt)) (snd (mustExpandAlias e tgt)))
            (filter succeeding
               (List cl \<lparr>Recursive = rc, TimeRef = t, ShowDir = DirNone, ListZip = z\<rparr>))"
    unfolding prepareCopyURLsTypeC_client [OF cl] snd_conv rangeListTypeC_successes
    by (rule map_cong) (simp_all add: typeCJob_succeeding)
next
  show "let p = Path sourceURL; c = Separator sourceURL; i = LastIndex p [c];
        r = ToSlash e (Path (URL sourceContent));
        pre = ToSlash e (take (nat i) p);
        suffix = (if 1 < i \<and> HasPrefix r pre then drop (length pre) r else r)
    in (i = - 1 \<and> c \<notin> set p \<or>
        0 \<le> i \<and> nat i < length p \<and> p ! nat i = c \<and> c \<notin> set (drop (Suc (nat i)) p))
       \<and> (1 < i \<and> HasPrefix r pre \<longrightarrow> r = pre @ suffix)
       \<and> (hostSeparator e = CHR ''/'' \<longrightarrow> r = Path (URL sourceContent) \<and> pre = take (nat i) p)
       \<and> (urlJoinPath e = joinPath (hostSeparator e) \<and> \<not> (1 < i \<and> HasPrefix r pre)
            \<longrightarrow> urlJoinPath e target suffix = urlJoinPath e target (Path (URL sourceContent)))
       \<and> makeCopyContentTypeC e sourceAlias sourceURL sourceContent targetAlias target
           = makeCopyContentTypeA e sourceAlias sourceContent targetAlias
               (urlJoinPath e target suffix)
       \<and> TargetContent
             (makeCopyContentTypeC e sourceAlias sourceURL sourceContent targetAlias target)
           = Some (ClientContentOfURL (newClientURL e (urlJoinPath e target suffix)))"
    unfolding Let_def
    apply (intro conjI impI)
    subgoal by (rule LastIndex_byte_last)
    subgoal using HasPrefix_split by simp
    subgoal by (simp add: ToSlash_unix)
    subgoal by (simp add: ToSlash_unix)
    subgoal by (auto simp: joinPath_ToSlash)
    subgoal by (simp add: makeCopyContentTypeC_def TrimPrefix_def Let_def)
    subgoal
      by (simp add: makeCopyContentTypeC_def makeCopyContentTypeA_def TrimPrefix_def Let_def)
    done
next
  show "TargetContent
       (makeCopyContentTypeC (unixEnv st isd ls) sourceAlias
          \<lparr>Path = ''bucket/dir1'', Separator = CHR ''/''\<rparr>
          (fileAt ''bucket/dir1/sub/file.txt'') targetAlias ''bucket2/out'')
     = Some (ClientContentOfURL
               \<lparr>Path = ''bucket2/out/dir1/sub/file.txt'', Separator = CHR ''/''\<rparr>)"
    by (simp add: makeCopyContentTypeC_def makeCopyContentTypeA_def unixEnv_def fileAt_def
        LastIndex_def ToSlash_def TrimPrefix_def HasPrefix_def joinPath_def Let_def
        eval_nat_numeral)
qed

theorem C1_typeC_target_path_witness:
  "1 < LastIndex ''bucket/dir1'' ''/''
   \<and> HasPrefix ''bucket/dir1/sub/file.txt'' ''bucket''
   \<and> hostSeparator noBackend = CHR ''/''
   \<and> ''bucket/dir1/sub/file.txt'' = ''bucket'' @ ''/dir1/sub/file.txt''
   \<and> makeCopyContentTypeC noBackend ''src'' \<lparr>Path = ''bucket/dir1'', Separator = CHR ''/''\<rparr>
         (fileAt ''bucket/dir1/sub/file.txt'') ''dst'' ''bucket2/out''
       = makeCopyContentTypeA noBackend ''src'' (fileAt ''bucket/dir1/sub/file.txt'') ''dst''
           (urlJoinPath noBackend ''bucket2/out'' ''/dir1/sub/file.txt'')
   \<and> urlJoinPath noBackend = joinPath (hostSeparator noBackend)
   \<and> LastIndex ''bucket'' ''/'' = - 1
   \<and> makeCopyContentTypeC noBackend ''src'' \<lparr>Path = ''bucket'', Separator = CHR ''/''\<rparr>
         (fileAt ''bucket/file.txt'') ''dst'' ''bucket2/out''
       = makeCopyContentTypeA noBackend ''src'' (fileAt ''bucket/file.txt'') ''dst''
           (urlJoinPath noBackend ''bucket2/out'' ''bucket/file.txt'')
   \<and> filter (\<lambda>u. Error u = None)
        (snd (prepareCopyURLsTypeC noBackend ''bucket'' ''bucket2/out'' True False time_zero))
       = []"
  using C1_typeC_target_path
    [where e = noBackend and sourceURL = "\<lparr>Path = ''bucket/dir1'', Separator = CHR ''/''\<rparr>"
      and sourceContent = "fileAt ''bucket/dir1/sub/file.txt''" and sourceAlias = "''src''"
      and targetAlias = "''dst''" and target = "''bucket2/out''" and src = "''bucket''"
      and tgt = "''bucket2/out''" and rc = True and z = False and t = time_zero]
    C1_typeC_target_path
    [where e = noBackend and sourceURL = "\<lparr>Path = ''bucket'', Separator = CHR ''/''\<rparr>"
      and sourceContent = "fileAt ''bucket/file.txt''" and sourceAlias = "''src''"
      and targetAlias = "''dst''" and target = "''bucket2/out''"]
  by (simp add: noBackend_def unixEnv_def fileAt_def LastIndex_def ToSlash_def HasPrefix_def
      Let_def eval_nat_numeral)

subsection \<open>The classifier\<close>

lemma IsRegular_zero: "IsRegular 0"
  by (simp add: IsRegular_def)

lemma IsDir_ModeDir: "IsDir ModeDir"
  by (simp add: IsDir_def ModeDir_def)

lemmas sample_defs = sampleBackend_def unixEnv_def sampleStat_def sampleIsDir_def
  sampleListing_def copyOpts_def fileAt_def dirAt_def linkAt_def

text \<open>
  Claim C2. With one source \<open>s\<close> the classifier probes it (a stat without the recursion
  flag, the first-object probe with it). A failed probe gives Invalid with the probe's
  error; a directory, or the recursion flag (also over a regular file), gives C; else a
  regular file gives B with the version id of the probed content when the target is an
  existing directory, and A with that version id when it is not. With more than one
  source the result is D when the target is an existing directory and Invalid otherwise.
\<close>

theorem C2_classifier:
  "(let probe = (if \<not> isRecursive opts
                 then url2Stat e s (versionID opts) False (encKeyDB opts) (timeRef opts)
                        (isZip opts)
                 else firstURL2Stat e s (timeRef opts) (isZip opts));
        targetIsDir = isAliasURLDir e (targetURL opts) (encKeyDB opts) (timeRef opts);
        result = snd (guessCopyURLType e opts)
    in (sourceURLs opts = [s] \<longrightarrow>
          (\<forall>err. probe = Inl err \<longrightarrow> result = (copyURLsTypeInvalid, [], Some err))
        \<and> (\<forall>c. probe = Inr c \<and> (IsDir (Type c) \<or> isRecursive opts)
               \<longrightarrow> result = (copyURLsTypeC, [], None))
        \<and> (\<forall>c. probe = Inr c \<and> IsRegular (Type c) \<and> \<not> isRecursive opts \<and> targetIsDir
               \<longrightarrow> result = (copyURLsTypeB, VersionID c, None))
        \<and> (\<forall>c. probe = Inr c \<and> IsRegular (Type c) \<and> \<not> isRecursive opts \<and> \<not> targetIsDir
               \<longrightarrow> result = (copyURLsTypeA, VersionID c, None)))
     \<and> (1 < length (sourceURLs opts) \<longrightarrow>
          (targetIsDir \<longrightarrow> result = (copyURLsTypeD, [], None))
        \<and> (\<not> targetIsDir \<longrightarrow>
              result = (copyURLsTypeInvalid, [], Some (Trace errInvalidArgument [])))))"
proof -
  have one: "sourceURLs opts = [s] \<Longrightarrow> snd (guessCopyURLType e opts) =
      (case (if \<not> isRecursive opts
             then url2Stat e s (versionID opts) False (encKeyDB opts) (timeRef opts) (isZip opts)
             else firstURL2Stat e s (timeRef opts) (isZip opts)) of
         Inl err \<Rightarrow> (copyURLsTypeInvalid, [], Some err)
       | Inr c \<Rightarrow>
           if IsDir (Type c) \<or> isRecursive opts then (copyURLsTypeC, [], None)
           else if isAliasURLDir e (targetURL opts) (encKeyDB opts) (timeRef opts)
           then (copyURLsTypeB, VersionID c, None)
           else (copyURLsTypeA, VersionID c, None))"
    by (simp add: guessCopyURLType_def do_url2Stat_def do_firstURL2Stat_def
        do_isAliasURLDir_def split: sum.splits)
  have many: "1 < length (sourceURLs opts) \<Longrightarrow> snd (guessCopyURLType e opts) =
      (if isAliasURLDir e (targetURL opts) (encKeyDB opts) (timeRef opts)
       then (copyURLsTypeD, [], None)
       else (copyURLsTypeInvalid, [], Some (Trace errInvalidArgument [])))"
    by (cases "sourceURLs opts"; cases "tl (sourceURLs opts)")
      (simp_all add: guessCopyURLType_def do_isAliasURLDir_def)
  show ?thesis
    unfolding Let_def
    apply (intro conjI impI allI)
    subgoal by (simp add: one)
    subgoal by (auto simp: one)
    subgoal using IsDir_not_IsRegular by (auto simp: one)
    subgoal using IsDir_not_IsRegular by (auto simp: one)
    subgoal by (simp add: many)
    subgoal by (simp add: many)
    done
qed

theorem C2_classifier_witness:
  "snd (guessCopyURLType sampleBackend (copyOpts [''missing''] ''backup'' False))
     = (copyURLsTypeInvalid, [], Some notFound)
   \<and> snd (guessCopyURLType sampleBackend (copyOpts [''data''] ''backup'' False))
     = (copyURLsTypeC, [], None)
   \<and> snd (guessCopyURLType sampleBackend (copyOpts [''data/a.txt''] ''backup'' True))
     = (copyURLsTypeC, [], None)
   \<and> snd (guessCopyURLType sampleBackend (copyOpts [''data/a.txt''] ''backup'' False))
     = (copyURLsTypeB, ''v1'', None)
   \<and> snd (guessCopyURLType sampleBackend (copyOpts [''data/a.txt''] ''copy.txt'' False))
     = (copyURLsTypeA, ''v1'', None)
   \<and> snd (guessCopyURLType sampleBackend
            (copyOpts [''data/a.txt'', ''data/sub/b.txt''] ''backup'' False))
     = (copyURLsTypeD, [], None)
   \<and> snd (guessCopyURLType sampleBackend
            (copyOpts [''data/a.txt'', ''data/sub/b.txt''] ''copy.txt'' False))
     = (copyURLsTypeInvalid, [], Some (Trace errInvalidArgument []))"
  using C2_classifier [of "copyOpts [''missing''] ''backup'' False" sampleBackend "''missing''"]
    C2_classifier [of "copyOpts [''data''] ''backup'' False" sampleBackend "''data''"]
    C2_classifier [of "copyOpts [''data/a.txt''] ''backup'' True" sampleBackend "''data/a.txt''"]
    C2_classifier [of "copyOpts [''data/a.txt''] ''backup'' False" sampleBackend "''data/a.txt''"]
    C2_classifier [of "copyOpts [''data/a.txt''] ''copy.txt'' False" sampleBackend "''data/a.txt''"]
    C2_classifier [of "copyOpts [''data/a.txt'', ''data/sub/b.txt''] ''backup'' False"
      sampleBackend "''x''"]
    C2_classifier [of "copyOpts [''data/a.txt'', ''data/sub/b.txt''] ''copy.txt'' False"
      sampleBackend "''x''"]
  by (simp add: sample_defs IsRegular_zero IsDir_ModeDir Let_def)

subsection \<open>Type A and Type B\<close>

lemma Trace_errors_distinct:
  "URLsOfError (Trace (errSourceIsDir u) fs) \<noteq> URLsOfError (Trace (errInvalidSource u) fs)"
  by (simp add: URLsOfError_def Trace_def errSourceIsDir_def errInvalidSource_def)

lemma ModeSymlink_props: "\<not> IsDir ModeSymlink" "\<not> IsRegular ModeSymlink"
  by (simp_all add: IsDir_def IsRegular_def ModeType_def ModeDir_def ModeSymlink_def
      ModeNamedPipe_def ModeSocket_def ModeDevice_def ModeCharDevice_def ModeIrregular_def)

text \<open>
  Claim C7. Type A stats the source (with the zero time). A failed stat gives the error
  job of the stat error traced with the source URL; a content that is not a regular file,
  a directory included, gives the error job of \<^verbatim>\<open>errInvalidSource\<close>; a regular file gives
  a job without error whose target content is \<^verbatim>\<open>ClientContent{URL: ...}\<close> of the expanded
  target URL, every other field zero. The stat of the source is the only call to the
  backend, so the target is not stat'ed.
\<close>

theorem C7_typeA:
  "(let st = url2Stat e src ver False keys time_zero z;
        result = snd (prepareCopyURLsTypeA e src ver tgt keys z)
    in (\<forall>err. st = Inl err \<longrightarrow> result = URLsOfError (Trace err [src]))
     \<and> (\<forall>c. st = Inr c \<and> \<not> IsRegular (Type c)
            \<longrightarrow> result = URLsOfError (Trace (errInvalidSource src) [src]))
     \<and> (\<forall>c. st = Inr c \<and> IsDir (Type c)
            \<longrightarrow> result = URLsOfError (Trace (errInvalidSource src) [src]))
     \<and> (\<forall>c. st = Inr c \<and> IsRegular (Type c)
            \<longrightarrow> result =
                  \<lparr>SourceAlias = fst (mustExpandAlias e src), SourceContent = Some c,
                   TargetAlias = fst (mustExpandAlias e tgt),
                   TargetContent =
                     Some (ClientContentOfURL (newClientURL e (snd (mustExpandAlias e tgt)))),
                   Error = None\<rparr>)
     \<and> fst (prepareCopyURLsTypeA e src ver tgt keys z)
         = [CallUrl2Stat src ver False keys time_zero z])"
  using IsDir_not_IsRegular
  by (auto simp: prepareCopyURLsTypeA_def do_url2Stat_def makeCopyContentTypeA_def Let_def
      split: prod.splits sum.splits)

theorem C7_typeA_witness:
  "snd (prepareCopyURLsTypeA sampleBackend ''missing'' [] ''copy.txt'' [] False)
     = URLsOfError (Trace notFound [''missing''])
   \<and> snd (prepareCopyURLsTypeA sampleBackend ''data/link'' [] ''copy.txt'' [] False)
     = URLsOfError (Trace (errInvalidSource ''data/link'') [''data/link''])
   \<and> snd (prepareCopyURLsTypeA sampleBackend ''data'' [] ''copy.txt'' [] False)
     = URLsOfError (Trace (errInvalidSource ''data'') [''data''])
   \<and> snd (prepareCopyURLsTypeA sampleBackend ''data/a.txt'' ''v1'' ''copy.txt'' [] False)
     = \<lparr>SourceAlias = [], SourceContent = Some (fileAt ''data/a.txt''), TargetAlias = [],
        TargetContent =
          Some (ClientContentOfURL \<lparr>Path = ''copy.txt'', Separator = CHR ''/''\<rparr>),
        Error = None\<rparr>
   \<and> fst (prepareCopyURLsTypeA sampleBackend ''data/a.txt'' ''v1'' ''copy.txt'' [] False)
     = [CallUrl2Stat ''data/a.txt'' ''v1'' False [] time_zero False]"
  using C7_typeA [of sampleBackend "''missing''" "[]" "[]" False "''copy.txt''"]
    C7_typeA [of sampleBackend "''data/link''" "[]" "[]" False "''copy.txt''"]
    C7_typeA [of sampleBackend "''data''" "[]" "[]" False "''copy.txt''"]
    C7_typeA [of sampleBackend "''data/a.txt''" "''v1''" "[]" False "''copy.txt''"]
  by (simp add: sample_defs IsRegular_zero IsDir_ModeDir ModeSymlink_props Let_def)

text \<open>
  Claim C6. Type B, after a successful stat of the source: a directory gives the error job
  of \<^verbatim>\<open>errSourceIsDir\<close>, which differs from that of \<^verbatim>\<open>errInvalidSource\<close>; a content that is
  neither regular nor a directory gives the error job of \<^verbatim>\<open>errInvalidSource\<close>; a regular
  file gives the Type A job whose target is the parsed target URL with its path replaced
  by \<^verbatim>\<open>ToSlash(Join(path, Base(source path)))\<close>. On a Unix host the source \<^verbatim>\<open>a/b/c.txt\<close>
  into \<^verbatim>\<open>d/e\<close> gives the target path \<^verbatim>\<open>d/e/c.txt\<close>.
\<close>

theorem C6_typeB:
  "(let st = url2Stat e src ver False keys time_zero z;
        result = snd (prepareCopyURLsTypeB e src ver tgt keys z);
        dir = newClientURL e (snd (mustExpandAlias e tgt))
    in (\<forall>c. st = Inr c \<and> IsDir (Type c)
            \<longrightarrow> result = URLsOfError (Trace (errSourceIsDir src) [src])
              \<and> result \<noteq> URLsOfError (Trace (errInvalidSource src) [src]))
     \<and> (\<forall>c. st = Inr c \<and> \<not> IsRegular (Type c) \<and> \<not> IsDir (Type c)
            \<longrightarrow> result = URLsOfError (Trace (errInvalidSource src) [src]))
     \<and> (\<forall>c. st = Inr c \<and> IsRegular (Type c)
            \<longrightarrow> result =
                  makeCopyContentTypeA e (fst (mustExpandAlias e src)) c
                    (fst (mustExpandAlias e tgt))
                    (String e (dir\<lparr>Path := ToSlash e (filepath_Join e
                        [Path dir, filepath_Base e (Path (URL c))])\<rparr>))))
   \<and> TargetContent
        (snd (prepareCopyURLsTypeB (unixEnv (\<lambda>url t. Inr (fileAt ''a/b/c.txt'')) isd ls)
                ''a/b/c.txt'' ver ''d/e'' keys z))
      = Some (ClientContentOfURL \<lparr>Path = ''d/e/c.txt'', Separator = CHR ''/''\<rparr>)"
proof -
  have ex: "TargetContent
        (snd (prepareCopyURLsTypeB (unixEnv (\<lambda>url t. Inr (fileAt ''a/b/c.txt'')) isd ls)
                ''a/b/c.txt'' ver ''d/e'' keys z))
      = Some (ClientContentOfURL \<lparr>Path = ''d/e/c.txt'', Separator = CHR ''/''\<rparr>)"
    by (simp add: prepareCopyURLsTypeB_def do_url2Stat_def makeCopyContentTypeB_def
        makeCopyContentTypeA_def unixEnv_def fileAt_def IsRegular_zero ToSlash_def
        unix_Join_def unix_Base_def unix_Clean_def cleanStep_def Let_def)
  have gen: "(let st = url2Stat e src ver False keys time_zero z;
        result = snd (prepareCopyURLsTypeB e src ver tgt keys z);
        dir = newClientURL e (snd (mustExpandAlias e tgt))
    in (\<forall>c. st = Inr c \<and> IsDir (Type c)
            \<longrightarrow> result = URLsOfError (Trace (errSourceIsDir src) [src])
              \<and> result \<noteq> URLsOfError (Trace (errInvalidSource src) [src]))
     \<and> (\<forall>c. st = Inr c \<and> \<not> IsRegular (Type c) \<and> \<not> IsDir (Type c)
            \<longrightarrow> result = URLsOfError (Trace (errInvalidSource src) [src]))
     \<and> (\<forall>c. st = Inr c \<and> IsRegular (Type c)
            \<longrightarrow> result =
                  makeCopyContentTypeA e (fst (mustExpandAlias e src)) c
                    (fst (mustExpandAlias e tgt))
                    (String e (dir\<lparr>Path := ToSlash e (filepath_Join e
                        [Path dir, filepath_Base e (Path (URL c))])\<rparr>))))"
    using IsDir_not_IsRegular Trace_errors_distinct
    by (auto simp: prepareCopyURLsTypeB_def do_url2Stat_def makeCopyContentTypeB_def Let_def
        split: prod.splits sum.splits)
  from gen ex show ?thesis by (rule conjI)
qed

theorem C6_typeB_witness:
  "snd (prepareCopyURLsTypeB sampleBackend ''data'' [] ''backup'' [] False)
     = URLsOfError (Trace (errSourceIsDir ''data'') [''data''])
   \<and> snd (prepareCopyURLsTypeB sampleBackend ''data/link'' [] ''backup'' [] False)
     = URLsOfError (Trace (errInvalidSource ''data/link'') [''data/link''])
   \<and> snd (prepareCopyURLsTypeB sampleBackend ''data/a.txt'' ''v1'' ''backup'' [] False)
     = makeCopyContentTypeA sampleBackend [] (fileAt ''data/a.txt'') [] ''backup/a.txt''"
  using C6_typeB [of sampleBackend "''data''" "[]" "[]" False "''backup''"]
    C6_typeB [of sampleBackend "''data/link''" "[]" "[]" False "''backup''"]
    C6_typeB [of sampleBackend "''data/a.txt''" "''v1''" "[]" False "''backup''"]
  by (simp add: sample_defs IsRegular_zero IsDir_ModeDir ModeSymlink_props Let_def
      ToSlash_def unix_Join_def unix_Base_def unix_Clean_def cleanStep_def)

subsection \<open>The reference time and the stat of Type A and Type B\<close>

lemma guess_AB_not_recursive:
  "fst (snd (guessCopyURLType e opts)) = copyURLsTypeA \<or>
   fst (snd (guessCopyURLType e opts)) = copyURLsTypeB \<Longrightarrow>
   \<not> isRecursive opts \<and> (\<exists>s. sourceURLs opts = [s])"
  by (auto simp: guessCopyURLType_def do_url2Stat_def do_firstURL2Stat_def
      do_isAliasURLDir_def Let_def split: list.splits sum.splits prod.splits if_splits)

text \<open>
  Claim C10. Type A and Type B make one call to the backend, the stat of the source with
  the zero time. In an invocation classified A or B the calls are the classifier's stat
  and directory test, both with the reference time of the invocation, and then the
  expander's stat with the version id the classifier returned and the zero time.
\<close>

theorem C10_typeAB_stat_time:
  "fst (prepareCopyURLsTypeA e src ver tgt keys z)
     = [CallUrl2Stat src ver False keys time_zero z]
   \<and> fst (prepareCopyURLsTypeB e src ver tgt keys z)
     = [CallUrl2Stat src ver False keys time_zero z]
   \<and> (sourceURLs opts = [s]
       \<and> (fst (snd (guessCopyURLType e opts)) = copyURLsTypeA
          \<or> fst (snd (guessCopyURLType e opts)) = copyURLsTypeB)
       \<longrightarrow> fst (prepareCopyURLs_generate e opts)
           = [CallUrl2Stat s (versionID opts) False (encKeyDB opts) (timeRef opts)
                (isZip opts),
              CallIsAliasURLDir (targetURL opts) (encKeyDB opts) (timeRef opts),
              CallUrl2Stat s (fst (snd (snd (guessCopyURLType e opts)))) False
                (encKeyDB opts) time_zero (isZip opts)])"
proof (intro conjI impI)
  show "fst (prepareCopyURLsTypeA e src ver tgt keys z)
     = [CallUrl2Stat src ver False keys time_zero z]"
    by (simp add: prepareCopyURLsTypeA_def do_url2Stat_def Let_def split: prod.splits)
  show "fst (prepareCopyURLsTypeB e src ver tgt keys z)
     = [CallUrl2Stat src ver False keys time_zero z]"
    by (simp add: prepareCopyURLsTypeB_def do_url2Stat_def Let_def split: prod.splits)
next
  assume a: "sourceURLs opts = [s]
       \<and> (fst (snd (guessCopyURLType e opts)) = copyURLsTypeA
          \<or> fst (snd (guessCopyURLType e opts)) = copyURLsTypeB)"
  then have nr: "\<not> isRecursive opts"
    using guess_AB_not_recursive [of e opts] by simp
  obtain t v er where g: "snd (guessCopyURLType e opts) = (t, v, er)"
    by (cases "snd (guessCopyURLType e opts)") auto
  have calls: "fst (guessCopyURLType e opts)
      = [CallUrl2Stat s (versionID opts) False (encKeyDB opts) (timeRef opts) (isZip opts),
         CallIsAliasURLDir (targetURL opts) (encKeyDB opts) (timeRef opts)]"
    and noerr: "er = None"
    using a nr g
    by (auto simp: guessCopyURLType_def do_url2Stat_def do_isAliasURLDir_def Let_def
        split: sum.splits if_splits)
  have full: "guessCopyURLType e opts
      = ([CallUrl2Stat s (versionID opts) False (encKeyDB opts) (timeRef opts) (isZip opts),
          CallIsAliasURLDir (targetURL opts) (encKeyDB opts) (timeRef opts)], t, v, None)"
    using calls g noerr by (cases "guessCopyURLType e opts") auto
  from a g have "t = copyURLsTypeA \<or> t = copyURLsTypeB" by simp
  then show "fst (prepareCopyURLs_generate e opts)
           = [CallUrl2Stat s (versionID opts) False (encKeyDB opts) (timeRef opts)
                (isZip opts),
              CallIsAliasURLDir (targetURL opts) (encKeyDB opts) (timeRef opts),
              CallUrl2Stat s (fst (snd (snd (guessCopyURLType e opts)))) False
                (encKeyDB opts) time_zero (isZip opts)]"
    using a
    by (auto simp: prepareCopyURLs_generate_def full fatalIf_def prepareCopyURLsTypeA_def
        prepareCopyURLsTypeB_def do_url2Stat_def Let_def split: prod.splits)
qed

theorem C10_typeAB_stat_time_witness:
  "timeRef rewindOpts \<noteq> time_zero
   \<and> fst (snd (guessCopyURLType sampleBackend rewindOpts)) = copyURLsTypeA
   \<and> fst (prepareCopyURLs_generate sampleBackend rewindOpts)
     = [CallUrl2Stat ''data/a.txt'' [] False [] 7 False,
        CallIsAliasURLDir ''copy.txt'' [] 7,
        CallUrl2Stat ''data/a.txt'' ''v1'' False [] time_zero False]"
  using C10_typeAB_stat_time [of sampleBackend "''data/a.txt''" "[]" "''copy.txt''" "[]" False
      rewindOpts "''data/a.txt''"]
  by (simp add: rewindOpts_def sample_defs IsRegular_zero IsDir_def Let_def time_zero_def
      guessCopyURLType_def do_url2Stat_def do_isAliasURLDir_def)

subsection \<open>The stream of Type C\<close>

lemma unixEnv_fields:
  "hostSeparator (unixEnv st isd ls) = CHR ''/''"
  "mustExpandAlias (unixEnv st isd ls) url = ([], url)"
  "newClientURL (unixEnv st isd ls) url = \<lparr>Path = url, Separator = CHR ''/''\<rparr>"
  "String (unixEnv st isd ls) = Path"
  "urlJoinPath (unixEnv st isd ls) = joinPath (CHR ''/'')"
  "newClient (unixEnv st isd ls) url
     = Inr \<lparr>GetURL = \<lparr>Path = url, Separator = CHR ''/''\<rparr>, List = ls url\<rparr>"
  by (simp_all add: unixEnv_def)

lemma brokenBackend_fields:
  "hostSeparator brokenBackend = CHR ''/''"
  "mustExpandAlias brokenBackend url = ([], url)"
  "newClientURL brokenBackend url = \<lparr>Path = url, Separator = CHR ''/''\<rparr>"
  "String brokenBackend = Path"
  "urlJoinPath brokenBackend = joinPath (CHR ''/'')"
  "newClient brokenBackend ''nowhere'' = Inl notFound"
  "newClient brokenBackend ''data''
     = Inr \<lparr>GetURL = \<lparr>Path = ''data'', Separator = CHR ''/''\<rparr>, List = brokenListing ''data''\<rparr>"
  by (simp_all add: brokenBackend_def unixEnv_def)

lemma LastIndex_data: "LastIndex ''data'' ''/'' = - 1"
  by (simp add: LastIndex_def eval_nat_numeral)

lemma joinPath_backup:
  "joinPath (CHR ''/'') ''backup'' ''data/a.txt'' = ''backup/data/a.txt''"
  "joinPath (CHR ''/'') ''backup'' ''data/sub/b.txt'' = ''backup/data/sub/b.txt''"
  by (simp_all add: joinPath_def TrimPrefix_def HasPrefix_def)

lemma makeCopyContentTypeC_data:
  "hostSeparator e = CHR ''/'' \<Longrightarrow>
   makeCopyContentTypeC e sa \<lparr>Path = ''data'', Separator = CHR ''/''\<rparr> (fileAt p) ta tu
     = makeCopyContentTypeA e sa (fileAt p) ta (urlJoinPath e tu p)"
  by (simp add: makeCopyContentTypeC_def LastIndex_data ToSlash_def fileAt_def)

lemma sample_kinds:
  "failing (fileAt p) = False" "succeeding (fileAt p) = True"
  "failing (dirAt p) = False" "succeeding (dirAt p) = False"
  "failing (linkAt p) = False" "succeeding (linkAt p) = False"
  "failing (deniedAt p) = True"
  "Err (fileAt p) = None"
  "Err (deniedAt p) = Some (ProbeError (Backend ''Access Denied'') [])"
  using IsDir_not_IsRegular [OF IsDir_ModeDir]
  by (simp_all add: failing_def succeeding_def fileAt_def dirAt_def linkAt_def deniedAt_def
      IsRegular_zero ModeSymlink_props)

text \<open>
  Claim C9. When the client of the source cannot be made, Type C sends the one error job of
  that error traced with the source URL and closes. Otherwise it sends, in the order of
  the listing, one job for every record that carries an error or is a regular file and
  nothing for the other records: the error job of the record's error traced with the URL
  of the source client for a failing record, a job without error for a regular file. So
  the error jobs are those of the failing records and the jobs without error those of the
  succeeding records, each in listing order and as many.
\<close>

theorem C9_typeC_stream:
  "(\<forall>err. newClient e src = Inl err
      \<longrightarrow> snd (prepareCopyURLsTypeC e src tgt rc z t) = [URLsOfError (Trace err [src])])
   \<and> (\<forall>cl. newClient e src = Inr cl \<longrightarrow>
        (let listing = List cl \<lparr>Recursive = rc, TimeRef = t, ShowDir = DirNone, ListZip = z\<rparr>;
             out = snd (prepareCopyURLsTypeC e src tgt rc z t);
             job = typeCJob e (fst (mustExpandAlias e src)) cl (fst (mustExpandAlias e tgt))
                     (snd (mustExpandAlias e tgt))
         in out = map job (filter (\<lambda>r. failing r \<or> succeeding r) listing)
          \<and> (\<forall>r err. Err r = Some err
                \<longrightarrow> job r = URLsOfError (Trace err [String e (GetURL cl)]))
          \<and> (\<forall>r. Err r = None \<longrightarrow> Error (job r) = None)
          \<and> filter (\<lambda>u. Error u \<noteq> None) out = map job (filter failing listing)
          \<and> filter (\<lambda>u. Error u = None) out = map job (filter succeeding listing)
          \<and> length (filter (\<lambda>u. Error u \<noteq> None) out) = length (filter failing listing)
          \<and> length (filter (\<lambda>u. Error u = None) out) = length (filter succeeding listing)))"
proof (intro conjI allI impI)
  fix err assume "newClient e src = Inl err"
  then show "snd (prepareCopyURLsTypeC e src tgt rc z t) = [URLsOfError (Trace err [src])]"
    by (simp add: prepareCopyURLsTypeC_no_client)
next
  fix cl assume cl: "newClient e src = Inr cl"
  show "let listing = List cl \<lparr>Recursive = rc, TimeRef = t, ShowDir = DirNone, ListZip = z\<rparr>;
             out = snd (prepareCopyURLsTypeC e src tgt rc z t);
             job = typeCJob e (fst (mustExpandAlias e src)) cl (fst (mustExpandAlias e tgt))
                     (snd (mustExpandAlias e tgt))
         in out = map job (filter (\<lambda>r. failing r \<or> succeeding r) listing)
          \<and> (\<forall>r err. Err r = Some err
                \<longrightarrow> job r = URLsOfError (Trace err [String e (GetURL cl)]))
          \<and> (\<forall>r. Err r = None \<longrightarrow> Error (job r) = None)
          \<and> filter (\<lambda>u. Error u \<noteq> None) out = map job (filter failing listing)
          \<and> filter (\<lambda>u. Error u = None) out = map job (filter succeeding listing)
          \<and> length (filter (\<lambda>u. Error u \<noteq> None) out) = length (filter failing listing)
          \<and> length (filter (\<lambda>u. Error u = None) out) = length (filter succeeding listing)"
    unfolding Let_def prepareCopyURLsTypeC_client [OF cl] snd_conv
    apply (intro conjI allI impI)
    subgoal by (rule rangeListTypeC_map)
    subgoal by (simp add: typeCJob_def)
    subgoal by (simp add: Error_typeCJob)
    subgoal by (rule rangeListTypeC_errors)
    subgoal by (rule rangeListTypeC_successes)
    subgoal by (simp only: rangeListTypeC_errors length_map)
    subgoal by (simp only: rangeListTypeC_successes length_map)
    done
qed

theorem C9_typeC_stream_witness:
  "snd (prepareCopyURLsTypeC brokenBackend ''nowhere'' ''backup'' True False time_zero)
     = [URLsOfError (Trace notFound [''nowhere''])]
   \<and> snd (prepareCopyURLsTypeC brokenBackend ''data'' ''backup'' True False time_zero)
     = [makeCopyContentTypeA brokenBackend [] (fileAt ''data/a.txt'') [] ''backup/data/a.txt'',
        URLsOfError (Trace (ProbeError (Backend ''Access Denied'') []) [''data'']),
        makeCopyContentTypeA brokenBackend [] (fileAt ''data/sub/b.txt'') []
          ''backup/data/sub/b.txt'']"
  using C9_typeC_stream [of brokenBackend "''nowhere''" "''backup''" True False time_zero]
    C9_typeC_stream [of brokenBackend "''data''" "''backup''" True False time_zero]
  by (simp add: brokenBackend_fields brokenListing_def sample_kinds typeCJob_def
      makeCopyContentTypeC_data joinPath_backup Let_def)

subsection \<open>The listing options of Type C\<close>

lemma listOptionsOf_append: "listOptionsOf (xs @ ys) = listOptionsOf xs @ listOptionsOf ys"
  by (induction xs rule: listOptionsOf.induct) simp_all

lemma listOptionsOf_guess: "listOptionsOf (fst (guessCopyURLType e opts)) = []"
  by (simp add: guessCopyURLType_def do_url2Stat_def do_firstURL2Stat_def
      do_isAliasURLDir_def Let_def split: list.splits sum.splits prod.splits)

lemma guess_no_error:
  "fst (snd (guessCopyURLType e opts)) \<noteq> copyURLsTypeInvalid \<Longrightarrow>
   snd (snd (snd (guessCopyURLType e opts))) = None"
  by (auto simp: guessCopyURLType_def do_url2Stat_def do_firstURL2Stat_def
      do_isAliasURLDir_def Let_def split: list.splits sum.splits prod.splits if_splits)

lemma generate_typeC:
  assumes "sourceURLs opts = s # rest"
    and "fst (snd (guessCopyURLType e opts)) = copyURLsTypeC"
  shows "prepareCopyURLs_generate e opts
     = (fst (guessCopyURLType e opts)
          @ fst (prepareCopyURLsTypeC e s (targetURL opts) (isRecursive opts) (isZip opts)
                   (timeRef opts)),
        Closed (snd (prepareCopyURLsTypeC e s (targetURL opts) (isRecursive opts) (isZip opts)
                   (timeRef opts))))"
proof -
  obtain cs t v er where g: "guessCopyURLType e opts = (cs, t, v, er)"
    by (cases "guessCopyURLType e opts") auto
  with assms(2) guess_no_error [of e opts] have "t = copyURLsTypeC" "er = None"
    by simp_all
  with g assms(1) show ?thesis
    by (simp add: prepareCopyURLs_generate_def fatalIf_def split: prod.splits)
qed

lemma listOptionsOf_concat: "listOptionsOf (concat xss) = concat (map listOptionsOf xss)"
  by (induction xss) (simp_all add: listOptionsOf_append)

lemma typeC_listOptions:
  "listOptionsOf (fst (prepareCopyURLsTypeC e src tgt rc z t))
     = (if isl (newClient e src) then []
        else [\<lparr>Recursive = rc, TimeRef = t, ShowDir = DirNone, ListZip = z\<rparr>])"
  by (cases "newClient e src")
    (simp_all add: prepareCopyURLsTypeC_client prepareCopyURLsTypeC_no_client)

lemma typeD_calls:
  "fst (prepareCopyURLsTypeD e srcs tgt rc t)
     = concat (map (\<lambda>s. fst (prepareCopyURLsTypeC e s tgt rc False t)) srcs)"
  by (induction srcs) (simp_all add: split_beta Let_def)

lemma typeD_listOptions:
  "listOptionsOf (fst (prepareCopyURLsTypeD e srcs tgt rc t))
     = map (\<lambda>s. \<lparr>Recursive = rc, TimeRef = t, ShowDir = DirNone, ListZip = False\<rparr>)
         (filter (\<lambda>s. \<not> isl (newClient e s)) srcs)"
  by (induction srcs) (simp_all add: split_beta Let_def listOptionsOf_append typeC_listOptions)

lemma guess_C_single:
  "fst (snd (guessCopyURLType e opts)) = copyURLsTypeC \<Longrightarrow> \<exists>s. sourceURLs opts = [s]"
  by (auto simp: guessCopyURLType_def do_url2Stat_def do_firstURL2Stat_def
      do_isAliasURLDir_def Let_def split: list.splits sum.splits prod.splits if_splits)

lemma generate_typeD_calls:
  assumes "fst (snd (guessCopyURLType e opts)) = copyURLsTypeD"
  shows "fst (prepareCopyURLs_generate e opts)
     = fst (guessCopyURLType e opts)
         @ fst (prepareCopyURLsTypeD e (sourceURLs opts) (targetURL opts) (isRecursive opts)
                  (timeRef opts))"
proof -
  obtain cs t v er where g: "guessCopyURLType e opts = (cs, t, v, er)"
    by (cases "guessCopyURLType e opts") auto
  with assms guess_no_error [of e opts] have "t = copyURLsTypeD" "er = None"
    by simp_all
  with g show ?thesis
    by (simp add: prepareCopyURLs_generate_def fatalIf_def split: prod.splits)
qed

lemma guess_many_unixEnv:
  "snd (guessCopyURLType (unixEnv st isd ls) (copyOpts (a # b # others) tgt rc\<lparr>isZip := z\<rparr>))
     = (if isd tgt then (copyURLsTypeD, [], None)
        else (copyURLsTypeInvalid, [], Some (Trace errInvalidArgument [])))"
  by (simp add: guessCopyURLType_def do_isAliasURLDir_def unixEnv_def copyOpts_def)

text \<open>
  Claim C8, as amended. Type C calls the listing once when the client of the source is
  made and not at all otherwise, with the options: recursion as its recursion argument,
  the reference time passed through, directories never shown, archive mode as its
  archive-mode argument. In an invocation classified C these are the recursion flag, the
  reference time and the archive-mode flag of the invocation, and the stream sent is that
  of this listing. In an invocation classified D, which runs Type C for each source,
  they are the recursion flag and the reference time of the invocation with archive mode
  off. So the listing is recursive exactly when the recursion flag is set.
\<close>

theorem C8_typeC_list_options:
  "listOptionsOf (fst (prepareCopyURLsTypeC e src tgt rc z t))
     = (if isl (newClient e src) then []
        else [\<lparr>Recursive = rc, TimeRef = t, ShowDir = DirNone, ListZip = z\<rparr>])
   \<and> (\<forall>cl. newClient e src = Inr cl
      \<longrightarrow> fst (prepareCopyURLsTypeC e src tgt rc z t)
          = [CallNewClient src,
             CallList (GetURL cl)
               \<lparr>Recursive = rc, TimeRef = t, ShowDir = DirNone, ListZip = z\<rparr>])
   \<and> (fst (snd (guessCopyURLType e opts)) = copyURLsTypeC
      \<longrightarrow> (\<exists>s. sourceURLs opts = [s]
            \<and> listOptionsOf (fst (prepareCopyURLs_generate e opts))
              = (if isl (newClient e s) then []
                 else [\<lparr>Recursive = isRecursive opts, TimeRef = timeRef opts,
                        ShowDir = DirNone, ListZip = isZip opts\<rparr>])))
   \<and> (\<forall>cl. sourceURLs opts = [s]
         \<and> fst (snd (guessCopyURLType e opts)) = copyURLsTypeC
         \<and> newClient e s = Inr cl
      \<longrightarrow> listOptionsOf (fst (prepareCopyURLs_generate e opts))
            = [\<lparr>Recursive = isRecursive opts, TimeRef = timeRef opts, ShowDir = DirNone,
                ListZip = isZip opts\<rparr>]
          \<and> snd (prepareCopyURLs_generate e opts)
            = Closed (rangeListTypeC e (fst (mustExpandAlias e s)) cl
                        (fst (mustExpandAlias e (targetURL opts)))
                        (snd (mustExpandAlias e (targetURL opts)))
                        (List cl \<lparr>Recursive = isRecursive opts, TimeRef = timeRef opts,
                                  ShowDir = DirNone, ListZip = isZip opts\<rparr>)))
   \<and> (fst (snd (guessCopyURLType e opts)) = copyURLsTypeD
      \<longrightarrow> listOptionsOf (fst (prepareCopyURLs_generate e opts))
          = map (\<lambda>s. \<lparr>Recursive = isRecursive opts, TimeRef = timeRef opts,
                        ShowDir = DirNone, ListZip = False\<rparr>)
              (filter (\<lambda>s. \<not> isl (newClient e s)) (sourceURLs opts)))"
proof (intro conjI allI impI)
  show "listOptionsOf (fst (prepareCopyURLsTypeC e src tgt rc z t))
     = (if isl (newClient e src) then []
        else [\<lparr>Recursive = rc, TimeRef = t, ShowDir = DirNone, ListZip = z\<rparr>])"
    by (rule typeC_listOptions)
next
  fix cl assume "newClient e src = Inr cl"
  then show "fst (prepareCopyURLsTypeC e src tgt rc z t)
          = [CallNewClient src,
             CallList (GetURL cl)
               \<lparr>Recursive = rc, TimeRef = t, ShowDir = DirNone, ListZip = z\<rparr>]"
    by (simp add: prepareCopyURLsTypeC_client)
next
  assume c: "fst (snd (guessCopyURLType e opts)) = copyURLsTypeC"
  then obtain s' where s': "sourceURLs opts = [s']"
    using guess_C_single by blast
  have "listOptionsOf (fst (prepareCopyURLs_generate e opts))
      = (if isl (newClient e s') then []
         else [\<lparr>Recursive = isRecursive opts, TimeRef = timeRef opts,
                ShowDir = DirNone, ListZip = isZip opts\<rparr>])"
    by (simp add: generate_typeC [OF s' c] listOptionsOf_append listOptionsOf_guess
        typeC_listOptions)
  with s' show "\<exists>s. sourceURLs opts = [s]
            \<and> listOptionsOf (fst (prepareCopyURLs_generate e opts))
              = (if isl (newClient e s) then []
                 else [\<lparr>Recursive = isRecursive opts, TimeRef = timeRef opts,
                        ShowDir = DirNone, ListZip = isZip opts\<rparr>])"
    by blast
next
  fix cl
  assume a: "sourceURLs opts = [s]
         \<and> fst (snd (guessCopyURLType e opts)) = copyURLsTypeC
         \<and> newClient e s = Inr cl"
  then have g: "prepareCopyURLs_generate e opts
     = (fst (guessCopyURLType e opts)
          @ fst (prepareCopyURLsTypeC e s (targetURL opts) (isRecursive opts) (isZip opts)
                   (timeRef opts)),
        Closed (snd (prepareCopyURLsTypeC e s (targetURL opts) (isRecursive opts) (isZip opts)
                   (timeRef opts))))"
    using generate_typeC [of opts s "[]" e] by simp
  from a show "listOptionsOf (fst (prepareCopyURLs_generate e opts))
            = [\<lparr>Recursive = isRecursive opts, TimeRef = timeRef opts, ShowDir = DirNone,
                ListZip = isZip opts\<rparr>]"
    by (simp add: g listOptionsOf_append listOptionsOf_guess prepareCopyURLsTypeC_client)
  from a show "snd (prepareCopyURLs_generate e opts)
            = Closed (rangeListTypeC e (fst (mustExpandAlias e s)) cl
                        (fst (mustExpandAlias e (targetURL opts)))
                        (snd (mustExpandAlias e (targetURL opts)))
                        (List cl \<lparr>Recursive = isRecursive opts, TimeRef = timeRef opts,
                                  ShowDir = DirNone, ListZip = isZip opts\<rparr>))"
    by (simp add: g prepareCopyURLsTypeC_client)
next
  assume d: "fst (snd (guessCopyURLType e opts)) = copyURLsTypeD"
  show "listOptionsOf (fst (prepareCopyURLs_generate e opts))
          = map (\<lambda>s. \<lparr>Recursive = isRecursive opts, TimeRef = timeRef opts,
                        ShowDir = DirNone, ListZip = False\<rparr>)
              (filter (\<lambda>s. \<not> isl (newClient e s)) (sourceURLs opts))"
    by (simp only: generate_typeD_calls [OF d] listOptionsOf_append listOptionsOf_guess
        typeD_listOptions append_Nil)
qed

theorem C8_typeC_list_options_witness:
  "fst (snd (guessCopyURLType sampleBackend (copyOpts [''data''] ''backup'' True)))
     = copyURLsTypeC
   \<and> listOptionsOf (fst (prepareCopyURLs_generate sampleBackend
                           (copyOpts [''data''] ''backup'' True)))
     = [\<lparr>Recursive = True, TimeRef = time_zero, ShowDir = DirNone, ListZip = False\<rparr>]
   \<and> fst (snd (guessCopyURLType zipBackend zipOpts)) = copyURLsTypeD
   \<and> isZip zipOpts
   \<and> listOptionsOf (fst (prepareCopyURLs_generate zipBackend zipOpts))
     = [\<lparr>Recursive = False, TimeRef = time_zero, ShowDir = DirNone, ListZip = False\<rparr>,
        \<lparr>Recursive = False, TimeRef = time_zero, ShowDir = DirNone, ListZip = False\<rparr>]
   \<and> isl (newClient brokenBackend ''nowhere'')
   \<and> listOptionsOf
        (fst (prepareCopyURLsTypeC brokenBackend ''nowhere'' ''backup'' True False time_zero))
     = []"
proof -
  let ?O = "copyOpts [''data''] ''backup'' True"
  have c: "fst (snd (guessCopyURLType sampleBackend ?O)) = copyURLsTypeC"
    by (simp add: sample_defs guessCopyURLType_def do_firstURL2Stat_def IsDir_ModeDir)
  have d: "fst (snd (guessCopyURLType zipBackend zipOpts)) = copyURLsTypeD"
    using guess_many_unixEnv
      [where st = sampleStat and isd = sampleIsDir and ls = zipListing
        and a = "''data/a.zip''" and b = "''data/a.txt''" and others = "[]"
        and tgt = "''backup''" and rc = False and z = True]
    by (simp add: zipBackend_def zipOpts_def sampleIsDir_def)
  have o: "sourceURLs ?O = [''data'']" "isRecursive ?O" "timeRef ?O = time_zero"
    "\<not> isZip ?O"
    "sourceURLs zipOpts = [''data/a.zip'', ''data/a.txt'']" "\<not> isRecursive zipOpts"
    "timeRef zipOpts = time_zero" "isZip zipOpts"
    by (simp_all add: copyOpts_def zipOpts_def)
  have n: "\<not> isl (newClient sampleBackend u)" "\<not> isl (newClient zipBackend u)"
    "isl (newClient brokenBackend ''nowhere'')" for u
    by (simp_all add: sampleBackend_def zipBackend_def unixEnv_fields brokenBackend_fields)
  show ?thesis
    using C8_typeC_list_options [where e = sampleBackend and opts = ?O and s = "''data''"]
      C8_typeC_list_options [where e = zipBackend and opts = zipOpts]
      C8_typeC_list_options [where e = brokenBackend and src = "''nowhere''"
        and tgt = "''backup''" and rc = True and z = False and t = time_zero]
    by (simp add: c d o n)
qed

text \<open>
  Claim C8 as stated fails: the directory \<^verbatim>\<open>data\<close> copied without the recursion flag is
  classified C, and its listing is called with recursion off.
\<close>

theorem C8_recursive_listing_counterexample:
  "fst (snd (guessCopyURLType sampleBackend (copyOpts [''data''] ''backup'' False)))
     = copyURLsTypeC
   \<and> listOptionsOf (fst (prepareCopyURLs_generate sampleBackend
                           (copyOpts [''data''] ''backup'' False)))
     = [\<lparr>Recursive = False, TimeRef = time_zero, ShowDir = DirNone, ListZip = False\<rparr>]"
proof -
  let ?O = "copyOpts [''data''] ''backup'' False"
  have c: "fst (snd (guessCopyURLType sampleBackend ?O)) = copyURLsTypeC"
    by (simp add: sample_defs guessCopyURLType_def do_url2Stat_def IsDir_ModeDir)
  have s: "sourceURLs ?O = [''data'']"
    by (simp add: copyOpts_def)
  have cl: "newClient sampleBackend ''data''
      = Inr \<lparr>GetURL = \<lparr>Path = ''data'', Separator = CHR ''/''\<rparr>,
              List = sampleListing ''data''\<rparr>"
    by (simp add: sampleBackend_def unixEnv_fields)
  have "listOptionsOf (fst (prepareCopyURLs_generate sampleBackend ?O))
      = [\<lparr>Recursive = isRecursive ?O, TimeRef = timeRef ?O, ShowDir = DirNone,
          ListZip = isZip ?O\<rparr>]"
    by (simp add: generate_typeC [OF s c] listOptionsOf_append listOptionsOf_guess
        prepareCopyURLsTypeC_client [OF cl])
  then have "listOptionsOf (fst (prepareCopyURLs_generate sampleBackend ?O))
      = [\<lparr>Recursive = False, TimeRef = time_zero, ShowDir = DirNone, ListZip = False\<rparr>]"
    by (simp add: copyOpts_def)
  with c show ?thesis by simp
qed

subsection \<open>Type D as a sequence of Type C\<close>

lemma prepareCopyURLsTypeD_concat:
  "snd (prepareCopyURLsTypeD e srcs tgt rc t)
     = concat (map (\<lambda>s. snd (prepareCopyURLsTypeC e s tgt rc False t)) srcs)"
  by (induction srcs) (simp_all add: split_beta Let_def)

lemma generate_typeD:
  assumes "fst (snd (guessCopyURLType e opts)) = copyURLsTypeD"
  shows "snd (prepareCopyURLs_generate e opts)
     = Closed (snd (prepareCopyURLsTypeD e (sourceURLs opts) (targetURL opts)
                      (isRecursive opts) (timeRef opts)))"
proof -
  obtain cs t v er where g: "guessCopyURLType e opts = (cs, t, v, er)"
    by (cases "guessCopyURLType e opts") auto
  with assms guess_no_error [of e opts] have "t = copyURLsTypeD" "er = None"
    by simp_all
  with g show ?thesis
    by (simp add: prepareCopyURLs_generate_def fatalIf_def split: prod.splits)
qed

text \<open>
  Claim C4, as amended. The stream of Type D is the concatenation, in argument order, of
  the streams of Type C for each source with the target, the recursion flag and the
  reference time of the invocation and with archive mode off; the stream for a list of
  sources followed by another is the stream of the first followed by that of the second.
  In an invocation classified D this is what the generator sends.
\<close>

theorem C4_typeD_concat:
  "snd (prepareCopyURLsTypeD e srcs tgt rc t)
     = concat (map (\<lambda>s. snd (prepareCopyURLsTypeC e s tgt rc False t)) srcs)
   \<and> snd (prepareCopyURLsTypeD e (srcs @ others) tgt rc t)
     = snd (prepareCopyURLsTypeD e srcs tgt rc t) @ snd (prepareCopyURLsTypeD e others tgt rc t)
   \<and> (fst (snd (guessCopyURLType e opts)) = copyURLsTypeD
      \<longrightarrow> snd (prepareCopyURLs_generate e opts)
          = Closed (concat (map (\<lambda>s. snd (prepareCopyURLsTypeC e s (targetURL opts)
                                            (isRecursive opts) False (timeRef opts)))
                             (sourceURLs opts))))"
  by (simp add: prepareCopyURLsTypeD_concat generate_typeD)

lemma LastIndex_samples:
  "LastIndex ''data/a.txt'' ''/'' = 4"
  "LastIndex ''data/sub/b.txt'' ''/'' = 8"
  "LastIndex ''data/a.zip'' ''/'' = 4"
  by (simp_all add: LastIndex_def eval_nat_numeral)

lemma joinPath_backup_files:
  "joinPath (CHR ''/'') ''backup'' ''/a.txt'' = ''backup/a.txt''"
  "joinPath (CHR ''/'') ''backup'' ''/b.txt'' = ''backup/b.txt''"
  "joinPath (CHR ''/'') ''backup'' ''/a.zip'' = ''backup/a.zip''"
  "joinPath (CHR ''/'') ''backup'' ''/a.zip/inner.txt'' = ''backup/a.zip/inner.txt''"
  by (simp_all add: joinPath_def TrimPrefix_def HasPrefix_def)

lemma makeCopyContentTypeC_samples:
  "hostSeparator e = CHR ''/'' \<Longrightarrow>
   makeCopyContentTypeC e sa \<lparr>Path = ''data/a.txt'', Separator = CHR ''/''\<rparr>
       (fileAt ''data/a.txt'') ta tu
     = makeCopyContentTypeA e sa (fileAt ''data/a.txt'') ta (urlJoinPath e tu ''/a.txt'')"
  "hostSeparator e = CHR ''/'' \<Longrightarrow>
   makeCopyContentTypeC e sa \<lparr>Path = ''data/sub/b.txt'', Separator = CHR ''/''\<rparr>
       (fileAt ''data/sub/b.txt'') ta tu
     = makeCopyContentTypeA e sa (fileAt ''data/sub/b.txt'') ta (urlJoinPath e tu ''/b.txt'')"
  "hostSeparator e = CHR ''/'' \<Longrightarrow>
   makeCopyContentTypeC e sa \<lparr>Path = ''data/a.zip'', Separator = CHR ''/''\<rparr>
       (fileAt ''data/a.zip'') ta tu
     = makeCopyContentTypeA e sa (fileAt ''data/a.zip'') ta (urlJoinPath e tu ''/a.zip'')"
  "hostSeparator e = CHR ''/'' \<Longrightarrow>
   makeCopyContentTypeC e sa \<lparr>Path = ''data/a.zip'', Separator = CHR ''/''\<rparr>
       (fileAt ''data/a.zip/inner.txt'') ta tu
     = makeCopyContentTypeA e sa (fileAt ''data/a.zip/inner.txt'') ta
         (urlJoinPath e tu ''/a.zip/inner.txt'')"
  by (simp_all add: makeCopyContentTypeC_def LastIndex_samples ToSlash_def fileAt_def
      TrimPrefix_def HasPrefix_def)

lemma typeC_unixEnv:
  "prepareCopyURLsTypeC (unixEnv st isd ls) src tgt rc z t
     = ([CallNewClient src,
         CallList \<lparr>Path = src, Separator = CHR ''/''\<rparr>
           \<lparr>Recursive = rc, TimeRef = t, ShowDir = DirNone, ListZip = z\<rparr>],
        rangeListTypeC (unixEnv st isd ls) [] 
          \<lparr>GetURL = \<lparr>Path = src, Separator = CHR ''/''\<rparr>, List = ls src\<rparr> [] tgt
          (ls src \<lparr>Recursive = rc, TimeRef = t, ShowDir = DirNone, ListZip = z\<rparr>))"
  by (simp add: prepareCopyURLsTypeC_client [OF unixEnv_fields(6)] unixEnv_fields)

lemma IsRegular_fileAt: "IsRegular (Type (fileAt p))"
  by (simp add: fileAt_def IsRegular_zero)

lemma typeC_sample_files:
  "snd (prepareCopyURLsTypeC sampleBackend ''data/a.txt'' ''backup'' rc z t)
     = [makeCopyContentTypeA sampleBackend [] (fileAt ''data/a.txt'') [] ''backup/a.txt'']"
  "snd (prepareCopyURLsTypeC sampleBackend ''data/sub/b.txt'' ''backup'' rc z t)
     = [makeCopyContentTypeA sampleBackend [] (fileAt ''data/sub/b.txt'') [] ''backup/b.txt'']"
  by (simp_all add: sampleBackend_def typeC_unixEnv sampleListing_def sample_kinds
      IsRegular_fileAt makeCopyContentTypeC_samples unixEnv_fields joinPath_backup_files)

theorem C4_typeD_concat_witness:
  "fst (snd (guessCopyURLType sampleBackend
               (copyOpts [''data/a.txt'', ''data/sub/b.txt''] ''backup'' False)))
     = copyURLsTypeD
   \<and> snd (prepareCopyURLs_generate sampleBackend
            (copyOpts [''data/a.txt'', ''data/sub/b.txt''] ''backup'' False))
     = Closed
         [makeCopyContentTypeA sampleBackend [] (fileAt ''data/a.txt'') [] ''backup/a.txt'',
          makeCopyContentTypeA sampleBackend [] (fileAt ''data/sub/b.txt'') []
            ''backup/b.txt'']"
proof -
  let ?O = "copyOpts [''data/a.txt'', ''data/sub/b.txt''] ''backup'' False"
  have d: "fst (snd (guessCopyURLType sampleBackend ?O)) = copyURLsTypeD"
    using guess_many_unixEnv
      [where st = sampleStat and isd = sampleIsDir and ls = sampleListing
        and a = "''data/a.txt''" and b = "''data/sub/b.txt''" and others = "[]"
        and tgt = "''backup''" and rc = False and z = False]
    by (simp add: sampleBackend_def sampleIsDir_def copyOpts_def)
  have o: "sourceURLs ?O = [''data/a.txt'', ''data/sub/b.txt'']" "targetURL ?O = ''backup''"
    by (simp_all add: copyOpts_def)
  have "snd (prepareCopyURLs_generate sampleBackend ?O)
     = Closed
         [makeCopyContentTypeA sampleBackend [] (fileAt ''data/a.txt'') [] ''backup/a.txt'',
          makeCopyContentTypeA sampleBackend [] (fileAt ''data/sub/b.txt'') []
            ''backup/b.txt'']"
    using C4_typeD_concat [where e = sampleBackend and opts = ?O] d
    by (simp add: o typeC_sample_files)
  with d show ?thesis by simp
qed

lemma typeC_zip_streams:
  "snd (prepareCopyURLsTypeC zipBackend ''data/a.zip'' ''backup'' rc True t)
     = [makeCopyContentTypeA zipBackend [] (fileAt ''data/a.zip/inner.txt'') []
          ''backup/a.zip/inner.txt'']"
  "snd (prepareCopyURLsTypeC zipBackend ''data/a.zip'' ''backup'' rc False t)
     = [makeCopyContentTypeA zipBackend [] (fileAt ''data/a.zip'') [] ''backup/a.zip'']"
  "snd (prepareCopyURLsTypeC zipBackend ''data/a.txt'' ''backup'' rc z t)
     = [makeCopyContentTypeA zipBackend [] (fileAt ''data/a.txt'') [] ''backup/a.txt'']"
  by (simp_all add: zipBackend_def typeC_unixEnv zipListing_def sampleListing_def sample_kinds
      IsRegular_fileAt makeCopyContentTypeC_samples unixEnv_fields joinPath_backup_files)

lemma fileAt_zip_differs: "fileAt ''data/a.zip'' \<noteq> fileAt ''data/a.zip/inner.txt''"
  by (simp add: fileAt_def)

text \<open>
  Claim C4 as stated fails: in archive mode an invocation classified D does not send what
  Type C sends for its sources with the archive-mode flag of the invocation.
\<close>

theorem C4_archive_mode_counterexample:
  "fst (snd (guessCopyURLType zipBackend zipOpts)) = copyURLsTypeD
   \<and> isZip zipOpts
   \<and> snd (prepareCopyURLs_generate zipBackend zipOpts)
     \<noteq> Closed
         (snd (prepareCopyURLsTypeC zipBackend ''data/a.zip'' (targetURL zipOpts)
                 (isRecursive zipOpts) (isZip zipOpts) (timeRef zipOpts))
          @ snd (prepareCopyURLsTypeC zipBackend ''data/a.txt'' (targetURL zipOpts)
                   (isRecursive zipOpts) (isZip zipOpts) (timeRef zipOpts)))"
proof -
  have d: "fst (snd (guessCopyURLType zipBackend zipOpts)) = copyURLsTypeD"
    using guess_many_unixEnv
      [where st = sampleStat and isd = sampleIsDir and ls = zipListing
        and a = "''data/a.zip''" and b = "''data/a.txt''" and others = "[]"
        and tgt = "''backup''" and rc = False and z = True]
    by (simp add: zipBackend_def zipOpts_def sampleIsDir_def)
  have o: "sourceURLs zipOpts = [''data/a.zip'', ''data/a.txt'']"
    "targetURL zipOpts = ''backup''" "isZip zipOpts"
    by (simp_all add: zipOpts_def copyOpts_def)
  have g: "snd (prepareCopyURLs_generate zipBackend zipOpts)
     = Closed
         [makeCopyContentTypeA zipBackend [] (fileAt ''data/a.zip'') [] ''backup/a.zip'',
          makeCopyContentTypeA zipBackend [] (fileAt ''data/a.txt'') [] ''backup/a.txt'']"
    by (simp only: generate_typeD [OF d] prepareCopyURLsTypeD_concat)
      (simp add: o typeC_zip_streams)
  have "makeCopyContentTypeA zipBackend [] (fileAt ''data/a.zip'') [] ''backup/a.zip''
      \<noteq> makeCopyContentTypeA zipBackend [] (fileAt ''data/a.zip/inner.txt'') []
          ''backup/a.zip/inner.txt''"
    by (simp add: makeCopyContentTypeA_def fileAt_zip_differs)
  with d o g show ?thesis
    by (simp add: typeC_zip_streams)
qed

subsection \<open>The filter stage and error jobs\<close>

text \<open>
  Without a time bound the filter stage delivers every job, error jobs included. With a
  bound, a job whose \<^verbatim>\<open>SourceContent\<close> is nil, as that of every error job, stops the stage
  with a nil pointer dereference.
\<close>

lemma filter_without_bounds:
  "olderThan opts = [] \<Longrightarrow> newerThan opts = [] \<Longrightarrow>
   prepareCopyURLs_filter e opts sent = Closed sent"
  by (induction sent) (simp_all add: skipOlder_def skipNewer_def send_def)

lemma filter_nil_SourceContent:
  "olderThan opts \<noteq> [] \<or> newerThan opts \<noteq> [] \<Longrightarrow> SourceContent u = None \<Longrightarrow>
   prepareCopyURLs_filter e opts (u # rest) = Panicked []"
  by (auto simp: skipOlder_def skipNewer_def)

lemma SourceContent_URLsOfError: "SourceContent (URLsOfError x) = None"
  by (simp add: URLsOfError_def)

text \<open>An Invalid classification always comes with an error, so the invocation is stopped.\<close>

lemma guess_Invalid_error:
  "fst (snd (guessCopyURLType e opts)) = copyURLsTypeInvalid \<Longrightarrow>
   snd (snd (snd (guessCopyURLType e opts))) \<noteq> None"
  by (auto simp: guessCopyURLType_def do_url2Stat_def do_firstURL2Stat_def
      do_isAliasURLDir_def Let_def split: list.splits sum.splits prod.splits if_splits)

lemma Invalid_is_fatal:
  assumes "fst (snd (guessCopyURLType e opts)) = copyURLsTypeInvalid"
  shows "\<exists>x. snd (prepareCopyURLs e opts)
           = Fatal (Trace x []) ''Unable to guess the type of copy operation.''"
proof -
  obtain cs t v er where g: "guessCopyURLType e opts = (cs, t, v, er)"
    by (cases "guessCopyURLType e opts") auto
  with assms guess_Invalid_error [of e opts] obtain x where "er = Some x"
    by auto
  with g show ?thesis
    by (auto simp: prepareCopyURLs_def prepareCopyURLs_generate_def fatalIf_def)
qed

lemma prepareCopyURLs_snd:
  "snd (prepareCopyURLs e opts)
     = (case snd (prepareCopyURLs_generate e opts) of
          Closed sent \<Rightarrow> prepareCopyURLs_filter e opts sent
        | Panicked sent \<Rightarrow> Panicked sent
        | Fatal x msg \<Rightarrow> Fatal x msg)"
  by (simp add: prepareCopyURLs_def split: prod.splits)

lemma typeC_broken_data:
  "snd (prepareCopyURLsTypeC brokenBackend ''data'' ''backup'' rc z t)
     = [makeCopyContentTypeA brokenBackend [] (fileAt ''data/a.txt'') [] ''backup/data/a.txt'',
        URLsOfError (Trace (ProbeError (Backend ''Access Denied'') []) [''data'']),
        makeCopyContentTypeA brokenBackend [] (fileAt ''data/sub/b.txt'') []
          ''backup/data/sub/b.txt'']"
  by (simp add: prepareCopyURLsTypeC_client [OF brokenBackend_fields(7)] rangeListTypeC_map
      brokenBackend_fields brokenListing_def sample_kinds typeCJob_def
      makeCopyContentTypeC_data joinPath_backup)

lemma olderOpts_fields:
  "sourceURLs olderOpts = [''data'']" "targetURL olderOpts = ''backup''"
  "isRecursive olderOpts" "olderThan olderOpts = ''7d''" "newerThan olderOpts = []"
  by (simp_all add: olderOpts_def copyOpts_def)

text \<open>
  Claim C3 fails on the code. The recursive copy of \<^verbatim>\<open>data\<close> with an older-than bound:
  the expander sends a job, the error job of the failing record and a second job; the
  filter stage delivers the first job and panics on the error job, which is never
  delivered, nor is the job after it.
\<close>

theorem C3_filter_panics_on_error_job:
  "snd (prepareCopyURLs_generate brokenBackend olderOpts)
     = Closed
         [makeCopyContentTypeA brokenBackend [] (fileAt ''data/a.txt'') [] ''backup/data/a.txt'',
          URLsOfError (Trace (ProbeError (Backend ''Access Denied'') []) [''data'']),
          makeCopyContentTypeA brokenBackend [] (fileAt ''data/sub/b.txt'') []
            ''backup/data/sub/b.txt'']
   \<and> snd (prepareCopyURLs brokenBackend olderOpts)
     = Panicked
         [makeCopyContentTypeA brokenBackend [] (fileAt ''data/a.txt'') []
            ''backup/data/a.txt'']"
proof -
  have "firstURL2Stat brokenBackend ''data'' t z = Inr (dirAt ''data'')" for t z
    by (simp add: brokenBackend_def unixEnv_def sampleStat_def)
  then have c: "fst (snd (guessCopyURLType brokenBackend olderOpts)) = copyURLsTypeC"
    by (simp add: guessCopyURLType_def olderOpts_fields do_firstURL2Stat_def)
  have g: "snd (prepareCopyURLs_generate brokenBackend olderOpts)
     = Closed
         [makeCopyContentTypeA brokenBackend [] (fileAt ''data/a.txt'') [] ''backup/data/a.txt'',
          URLsOfError (Trace (ProbeError (Backend ''Access Denied'') []) [''data'']),
          makeCopyContentTypeA brokenBackend [] (fileAt ''data/sub/b.txt'') []
            ''backup/data/sub/b.txt'']"
    by (simp add: generate_typeC [OF olderOpts_fields(1) c] olderOpts_fields typeC_broken_data)
  have older: "isOlder brokenBackend t b = False" for t b
    by (simp add: brokenBackend_def unixEnv_def)
  have f: "prepareCopyURLs_filter brokenBackend olderOpts
         [makeCopyContentTypeA brokenBackend [] (fileAt ''data/a.txt'') [] ''backup/data/a.txt'',
          URLsOfError (Trace (ProbeError (Backend ''Access Denied'') []) [''data'']),
          makeCopyContentTypeA brokenBackend [] (fileAt ''data/sub/b.txt'') []
            ''backup/data/sub/b.txt'']
     = Panicked
         [makeCopyContentTypeA brokenBackend [] (fileAt ''data/a.txt'') []
            ''backup/data/a.txt'']"
    by (simp add: skipOlder_def skipNewer_def olderOpts_fields older send_def
        SourceContent_URLsOfError makeCopyContentTypeA_def)
  show ?thesis
    unfolding prepareCopyURLs_snd g using f by simp
qed

lemma newerOpts_fields:
  "sourceURLs newerOpts = [''data/old.txt'']" "targetURL newerOpts = ''copy.txt''"
  "\<not> isRecursive newerOpts" "olderThan newerOpts = []" "newerThan newerOpts = ''1d''"
  "timeRef newerOpts = 7" "versionID newerOpts = []" "encKeyDB newerOpts = []"
  "\<not> isZip newerOpts"
  by (simp_all add: newerOpts_def copyOpts_def)

text \<open>
  Claim C5 fails on the code, by the same dereference. The copy of one file classified A
  whose stat in the expander fails, with a newer-than bound: the error is not a
  classification failure, the expander sends its error job, and the filter stage panics
  instead of delivering it.
\<close>

theorem C5_error_job_not_delivered:
  "fst (snd (guessCopyURLType rewindBackend newerOpts)) = copyURLsTypeA
   \<and> snd (prepareCopyURLs_generate rewindBackend newerOpts)
     = Closed [URLsOfError (Trace notFound [''data/old.txt''])]
   \<and> snd (prepareCopyURLs rewindBackend newerOpts) = Panicked []"
proof -
  have st: "url2Stat rewindBackend ''data/old.txt'' v f k 7 z = Inr (fileAt ''data/old.txt'')"
    "url2Stat rewindBackend ''data/old.txt'' v f k time_zero z = Inl notFound"
    "isAliasURLDir rewindBackend ''copy.txt'' k t = False" for v f k z t
    by (simp_all add: rewindBackend_def unixEnv_def rewindStat_def sampleStat_def
        sampleIsDir_def time_zero_def)
  have nd: "\<not> IsDir (Type (fileAt ''data/old.txt''))"
    using IsDir_not_IsRegular IsRegular_fileAt by blast
  have guess: "guessCopyURLType rewindBackend newerOpts
      = ([CallUrl2Stat ''data/old.txt'' [] False [] 7 False,
          CallIsAliasURLDir ''copy.txt'' [] 7], copyURLsTypeA, ''v1'', None)"
    by (simp add: guessCopyURLType_def newerOpts_fields do_url2Stat_def do_isAliasURLDir_def
        st nd) (simp add: fileAt_def)
  have g: "snd (prepareCopyURLs_generate rewindBackend newerOpts)
     = Closed [URLsOfError (Trace notFound [''data/old.txt''])]"
    by (simp add: prepareCopyURLs_generate_def guess fatalIf_def newerOpts_fields
        prepareCopyURLsTypeA_def do_url2Stat_def st split: prod.splits)
  have f: "prepareCopyURLs_filter rewindBackend newerOpts
          [URLsOfError (Trace notFound [''data/old.txt''])] = Panicked []"
    by (rule filter_nil_SourceContent) (simp_all add: newerOpts_fields SourceContent_URLsOfError)
  show ?thesis
    unfolding prepareCopyURLs_snd g using f guess by simp
qed

end
